theory Spec2Isabelle
  imports Complex_Main "HOL-Library.AList" "HOL-Library.Sublist"
begin

section \<open>JavaScript values\<close>

text \<open>
  The values the frontend code handles: what \<^verbatim>\<open>JSON.parse\<close> yields (null, booleans,
  numbers, strings, arrays, objects) together with \<^verbatim>\<open>undefined\<close> and the three remaining
  \<^verbatim>\<open>typeof\<close> classes (functions, symbols, bigints), which carry no further structure.

  A number is a finite value, or one of the three non-finite doubles. A string is a list
  of code units. An object is the list of its own enumerable properties in creation order;
  a property name occurs once in it. Objects are plain data: they have no accessor
  properties, so reading a property never runs code.
\<close>

datatype jsnum = Finite rat | NaN | PosInfinity | NegInfinity

datatype jsval =
    JUndefined
  | JNull
  | JBool bool
  | JNum jsnum
  | JStr string
  | JArr "jsval list"
  | JObj "(string \<times> jsval) list"
  | JFunction
  | JSymbol
  | JBigInt int

datatype js_error = TypeError | Error string

text \<open>The \<^verbatim>\<open>typeof\<close> operator.\<close>

fun typeof :: "jsval \<Rightarrow> string" where
  "typeof JUndefined = ''undefined''"
| "typeof JNull = ''object''"
| "typeof (JBool b) = ''boolean''"
| "typeof (JNum n) = ''number''"
| "typeof (JStr s) = ''string''"
| "typeof (JArr xs) = ''object''"
| "typeof (JObj kvs) = ''object''"
| "typeof JFunction = ''function''"
| "typeof JSymbol = ''symbol''"
| "typeof (JBigInt i) = ''bigint''"

text \<open>
  ToBoolean: \<^verbatim>\<open>undefined\<close>, \<^verbatim>\<open>null\<close>, \<^verbatim>\<open>false\<close>, zero, \<^verbatim>\<open>NaN\<close>,
  \<^verbatim>\<open>0n\<close> and the empty string are falsy, every other value is truthy.
\<close>

fun truthy :: "jsval \<Rightarrow> bool" where
  "truthy JUndefined = False"
| "truthy JNull = False"
| "truthy (JBool b) = b"
| "truthy (JNum (Finite q)) = (q \<noteq> 0)"
| "truthy (JNum NaN) = False"
| "truthy (JNum PosInfinity) = True"
| "truthy (JNum NegInfinity) = True"
| "truthy (JStr s) = (s \<noteq> [])"
| "truthy (JArr xs) = True"
| "truthy (JObj kvs) = True"
| "truthy JFunction = True"
| "truthy JSymbol = True"
| "truthy (JBigInt i) = (i \<noteq> 0)"

text \<open>
  Reading a property \<^verbatim>\<open>v.name\<close> of a value that is neither \<^verbatim>\<open>undefined\<close> nor
  \<^verbatim>\<open>null\<close>. The code reads the names \<^verbatim>\<open>tools\<close>, \<^verbatim>\<open>output\<close>, \<^verbatim>\<open>type\<close> and the
  field names of the tool outputs; no built-in prototype defines any of them, so the
  result is the own property of an object and \<^verbatim>\<open>undefined\<close> everywhere else.
\<close>

fun read_prop :: "jsval \<Rightarrow> string \<Rightarrow> jsval" where
  "read_prop (JObj kvs) k = (case map_of kvs k of Some v \<Rightarrow> v | None \<Rightarrow> JUndefined)"
| "read_prop v k = JUndefined"

text \<open>The same read where the base may be \<^verbatim>\<open>undefined\<close> or \<^verbatim>\<open>null\<close>: those throw.\<close>

fun get_prop :: "jsval \<Rightarrow> string \<Rightarrow> js_error + jsval" where
  "get_prop JUndefined k = Inl TypeError"
| "get_prop JNull k = Inl TypeError"
| "get_prop v k = Inr (read_prop v k)"

text \<open>
  The property names every ordinary object inherits from \<^verbatim>\<open>Object.prototype\<close> in a
  browser. All are functions except \<^verbatim>\<open>__proto__\<close>, whose value is the prototype object.
\<close>

definition Object_prototype_names :: "string list" where
  "Object_prototype_names =
     [''constructor'', ''__defineGetter__'', ''__defineSetter__'', ''hasOwnProperty'',
      ''__lookupGetter__'', ''__lookupSetter__'', ''isPrototypeOf'',
      ''propertyIsEnumerable'', ''toString'', ''valueOf'', ''__proto__'',
      ''toLocaleString'']"

section \<open>The renderer dispatch table (toolRenderers.tsx)\<close>

text \<open>
  A React node as \<^verbatim>\<open>renderToolPart\<close> builds it. JSX creates an element, it does not
  run the component: \<open>Element c data\<close> is \<^verbatim>\<open><C data={data} />\<close>, and
  \<open>ToolResultWrapper toolName toolOutput children\<close> is the wrapper element around the
  rendered child. \<open>JsValue v\<close> is a JavaScript value standing where a node is expected.
\<close>

datatype component = WeatherResult_component | SQLQueryResult_component | ChartResult_component

datatype react_node =
    Element component jsval
  | JsValue jsval
  | ToolResultWrapper string jsval react_node

definition toolRenderers :: "(string \<times> component) list" where
  "toolRenderers =
     [(''get_weather'', WeatherResult_component),
      (''execute_sql'', SQLQueryResult_component),
      (''render_chart'', ChartResult_component)]"

text \<open>
  \<^verbatim>\<open>toolName in toolRenderers\<close>: the \<^verbatim>\<open>in\<close> operator looks at the object's own
  properties and at those of its prototype chain, here \<^verbatim>\<open>Object.prototype\<close>.
\<close>

definition hasToolRenderer :: "string \<Rightarrow> bool" where
  "hasToolRenderer toolName \<longleftrightarrow>
     toolName \<in> set (map fst toolRenderers) \<or> toolName \<in> set Object_prototype_names"

text \<open>
  \<^verbatim>\<open>toolRenderers[toolName](output)\<close>. An own entry builds its element. An inherited
  function of \<^verbatim>\<open>Object.prototype\<close> is called on the table with the output as its
  argument; what it returns or throws is the runtime's business and is the parameter
  \<open>builtin\<close>. The inherited \<^verbatim>\<open>__proto__\<close> is an object and a missing property is
  \<^verbatim>\<open>undefined\<close>: calling either throws a TypeError.
\<close>

definition callToolRenderer ::
  "(string \<Rightarrow> jsval \<Rightarrow> js_error + jsval) \<Rightarrow> string \<Rightarrow> jsval \<Rightarrow> js_error + react_node" where
  "callToolRenderer builtin toolName output =
     (case map_of toolRenderers toolName of
        Some c \<Rightarrow> Inr (Element c output)
      | None \<Rightarrow>
          if toolName = ''__proto__'' then Inl TypeError
          else if toolName \<in> set Object_prototype_names then
            (case builtin toolName output of
               Inl e \<Rightarrow> Inl e
             | Inr v \<Rightarrow> Inr (JsValue v))
          else Inl TypeError)"

text \<open>The two \<^verbatim>\<open>console.warn\<close> messages.\<close>

definition no_renderer_warning :: "string \<Rightarrow> string" where
  "no_renderer_warning toolName = ''No renderer found for tool: '' @ toolName"

definition invalid_output_warning :: "string \<Rightarrow> string" where
  "invalid_output_warning toolName = ''Invalid output for tool: '' @ toolName"

text \<open>\<^verbatim>\<open>s.startsWith(p)\<close> on strings.\<close>

definition startsWith :: "string \<Rightarrow> string \<Rightarrow> bool" where
  "startsWith s p \<longleftrightarrow> take (length p) s = p"

text \<open>
  \<^verbatim>\<open>renderToolPart(part)\<close>. The result pairs the warnings logged, in order, with what
  the call does: it throws (\<open>Inl\<close>), returns \<^verbatim>\<open>null\<close> (\<open>Inr None\<close>) or returns a node.
\<close>

definition renderToolPart ::
  "(string \<Rightarrow> jsval \<Rightarrow> js_error + jsval) \<Rightarrow> jsval \<Rightarrow> string list \<times> (js_error + react_node option)" where
  "renderToolPart builtin part =
     (if typeof part \<noteq> ''object'' \<or> part = JNull then ([], Inr None)
      else
        let type = read_prop part ''type'';
            output = read_prop part ''output''
        in
          (case type of
             JStr t \<Rightarrow>
               if \<not> startsWith t ''tool-'' then ([], Inr None)
               else
                 let toolName = drop 5 t in
                   if \<not> hasToolRenderer toolName then
                     ([no_renderer_warning toolName], Inr None)
                   else if typeof output \<noteq> ''object'' \<or> output = JNull then
                     ([invalid_output_warning toolName], Inr None)
                   else
                     (case callToolRenderer builtin toolName output of
                        Inl e \<Rightarrow> ([], Inl e)
                      | Inr rendered \<Rightarrow>
                          ([], Inr (Some (ToolResultWrapper toolName output rendered))))
           | _ \<Rightarrow> ([], Inr None)))"

section \<open>The type guard helpers (tool-utils.ts)\<close>

text \<open>
  \<^verbatim>\<open>getToolOutput(part, toolName)\<close>: the \<^verbatim>\<open>&&\<close> chain tests that the part is a
  non-null object, that its \<^verbatim>\<open>type\<close> is strictly equal to the string
  \<^verbatim>\<open>tool-<toolName>\<close>, and that its \<^verbatim>\<open>output\<close> is truthy.
\<close>

definition getToolOutput :: "jsval \<Rightarrow> string \<Rightarrow> jsval" where
  "getToolOutput part toolName =
     (if typeof part = ''object'' \<and> part \<noteq> JNull
         \<and> read_prop part ''type'' = JStr (''tool-'' @ toolName)
         \<and> truthy (read_prop part ''output'')
      then read_prop part ''output''
      else JNull)"

definition isToolPart :: "jsval \<Rightarrow> string \<Rightarrow> bool" where
  "isToolPart part toolName \<longleftrightarrow>
     typeof part = ''object'' \<and> part \<noteq> JNull
       \<and> read_prop part ''type'' = JStr (''tool-'' @ toolName)"

section \<open>The type generator (scripts/generate-types.js)\<close>

subsection \<open>Property order\<close>

text \<open>
  \<^verbatim>\<open>Object.entries\<close> lists the own enumerable string-keyed properties in the order of
  \<^verbatim>\<open>OrdinaryOwnPropertyKeys\<close>: first the names that are array indices (the canonical
  decimal form of an integer below \<open>2\<^sup>3\<^sup>2 - 1\<close>) in ascending numeric order, then the
  remaining names in creation order.
\<close>

definition is_digit :: "char \<Rightarrow> bool" where
  "is_digit c \<longleftrightarrow> c \<in> set ''0123456789''"

definition digit_value :: "char \<Rightarrow> nat" where
  "digit_value c = of_char c - 48"

definition parse_nat :: "string \<Rightarrow> nat" where
  "parse_nat s = foldl (\<lambda>n c. 10 * n + digit_value c) 0 s"

definition is_array_index :: "string \<Rightarrow> bool" where
  "is_array_index s \<longleftrightarrow>
     s \<noteq> [] \<and> list_all is_digit s \<and> (s = ''0'' \<or> hd s \<noteq> CHR ''0'') \<and> parse_nat s < 2 ^ 32 - 1"

definition own_property_order :: "(string \<times> 'a) list \<Rightarrow> (string \<times> 'a) list" where
  "own_property_order kvs =
     sort_key (\<lambda>kv. parse_nat (fst kv)) (filter (\<lambda>kv. is_array_index (fst kv)) kvs)
       @ filter (\<lambda>kv. \<not> is_array_index (fst kv)) kvs"

text \<open>The decimal form of a number, as it names the elements of an array or a string.\<close>

fun show_nat :: "nat \<Rightarrow> string" where
  "show_nat n =
     (if n < 10 then [''0123456789'' ! n]
      else show_nat (n div 10) @ [''0123456789'' ! (n mod 10)])"

declare show_nat.simps [simp del]

text \<open>
  \<^verbatim>\<open>Object.entries(v)\<close>: it throws on \<^verbatim>\<open>undefined\<close> and \<^verbatim>\<open>null\<close>, lists the
  properties of an object, the elements of an array and the code units of a string under
  their indices, and finds nothing to list in any other value.
\<close>

fun Object_entries :: "jsval \<Rightarrow> js_error + (string \<times> jsval) list" where
  "Object_entries JUndefined = Inl TypeError"
| "Object_entries JNull = Inl TypeError"
| "Object_entries (JObj kvs) = Inr (own_property_order kvs)"
| "Object_entries (JArr xs) = Inr (zip (map show_nat [0..<length xs]) xs)"
| "Object_entries (JStr s) = Inr (zip (map show_nat [0..<length s]) (map (\<lambda>c. JStr [c]) s))"
| "Object_entries v = Inr []"

text \<open>
  The assignment \<^verbatim>\<open>obj[name] = value\<close> of a string value to a plain object created by
  \<^verbatim>\<open>{}\<close>: the name \<^verbatim>\<open>__proto__\<close> reaches the setter inherited from
  \<^verbatim>\<open>Object.prototype\<close>, which ignores a value that is neither an object nor null, so
  no property is created; any other name is overwritten in place or appended.
\<close>

definition assign_property :: "(string \<times> string) list \<Rightarrow> string \<Rightarrow> string \<Rightarrow> (string \<times> string) list" where
  "assign_property obj name v = (if name = ''__proto__'' then obj else AList.update name v obj)"

subsection \<open>The interface name\<close>

text \<open>
  \<^verbatim>\<open>tsCode.match(/export interface (\w+)/)\<close>: the leftmost place where the literal text
  is followed by at least one word character; the capture is the longest run of word
  characters there. \<open>None\<close> is the \<^verbatim>\<open>null\<close> of no match.
\<close>

definition is_word_char :: "char \<Rightarrow> bool" where
  "is_word_char c \<longleftrightarrow>
     c \<in> set ''abcdefghijklmnopqrstuvwxyzABCDEFGHIJKLMNOPQRSTUVWXYZ0123456789_''"

fun match_export_interface :: "string \<Rightarrow> string option" where
  "match_export_interface [] = None"
| "match_export_interface (c # cs) =
     (if take 17 (c # cs) = ''export interface ''
         \<and> takeWhile is_word_char (drop 17 (c # cs)) \<noteq> []
      then Some (takeWhile is_word_char (drop 17 (c # cs)))
      else match_export_interface cs)"

subsection \<open>The generation run\<close>

text \<open>
  What the run does to the world is recorded as the list of its calls, in order: the
  console messages, \<^verbatim>\<open>fs.mkdirSync\<close> and \<^verbatim>\<open>fs.writeFileSync\<close> with its path and
  content. A call is recorded when it is made, whether or not it then throws.
\<close>

datatype log_message =
    FetchingSchemas
  | GeneratingTypesFor string
  | TypesGenerated string
  | FailedToGenerate js_error

datatype effect =
    Log log_message
  | MkdirSync string
  | WriteFileSync string string

text \<open>
  What the world answers: the fetch either rejects or yields a response with its
  \<^verbatim>\<open>ok\<close> flag, its status text and the outcome of \<^verbatim>\<open>response.json()\<close>;
  \<open>compile\<close> is json-schema-to-typescript's \<^verbatim>\<open>compile(schema, name, options)\<close> with
  the options the script fixes, returning the TypeScript text or failing; the remaining
  fields say whether the output directory exists and whether the two file system calls
  throw.
\<close>

datatype fetch_outcome =
    FetchRejected js_error
  | Response bool string "js_error + jsval"

record env =
  fetch_result :: fetch_outcome
  compile :: "jsval \<Rightarrow> string \<Rightarrow> js_error + string"
  existsSync_outputDir :: bool
  mkdirSync_error :: "js_error option"
  writeFileSync_error :: "js_error option"

definition OUTPUT_FILE :: string where
  "OUTPUT_FILE = ''./src/types/tools.ts''"

text \<open>\<^verbatim>\<open>path.dirname(OUTPUT_FILE)\<close>.\<close>

definition outputDir :: string where
  "outputDir = ''./src/types''"

definition newline :: string where
  "newline = [CHR 0x0A]"

definition banner :: string where
  "banner =
     ''/**'' @ newline
     @ '' * Auto-generated types from backend tool schemas'' @ newline
     @ '' * Do not edit manually - run '' @ [CHR 0x22] @ ''npm run generate:types''
     @ [CHR 0x22] @ '' to update'' @ newline
     @ '' */'' @ newline @ newline"

text \<open>The variables of the loop, with the console messages written so far.\<close>

record gen_state =
  typeDefinitions :: string
  toolOutputTypes :: "(string \<times> string) list"
  logged :: "effect list"

definition initial_state :: gen_state where
  "initial_state = \<lparr>typeDefinitions = banner, toolOutputTypes = [], logged = []\<rparr>"

text \<open>
  The loop over \<^verbatim>\<open>Object.entries(tools)\<close>. It stops at the first throw: reading
  \<^verbatim>\<open>output\<close> from a tool entry that is \<^verbatim>\<open>null\<close>, or a compile that fails.
\<close>

fun compile_tools ::
  "(jsval \<Rightarrow> string \<Rightarrow> js_error + string) \<Rightarrow> (string \<times> jsval) list \<Rightarrow> gen_state
     \<Rightarrow> gen_state \<times> js_error option" where
  "compile_tools c [] s = (s, None)"
| "compile_tools c ((toolName, toolData) # rest) s =
     (case get_prop toolData ''output'' of
        Inl err \<Rightarrow> (s, Some err)
      | Inr output \<Rightarrow>
          if truthy output then
            (let s1 = s\<lparr>logged := logged s @ [Log (GeneratingTypesFor toolName)]\<rparr> in
               case c output toolName of
                 Inl err \<Rightarrow> (s1, Some err)
               | Inr tsCode \<Rightarrow>
                   (let s2 = s1\<lparr>typeDefinitions := typeDefinitions s1 @ tsCode @ newline\<rparr> in
                      case match_export_interface tsCode of
                        Some typeName \<Rightarrow>
                          compile_tools c rest
                            (s2\<lparr>toolOutputTypes :=
                                  assign_property (toolOutputTypes s2) toolName typeName\<rparr>)
                      | None \<Rightarrow> compile_tools c rest s2))
          else compile_tools c rest s)"

text \<open>The text appended after the loop: the \<^verbatim>\<open>ToolOutputTypes\<close> mapping.\<close>

definition mapping_lines :: "(string \<times> string) list \<Rightarrow> string" where
  "mapping_lines reg =
     concat (map (\<lambda>(toolName, typeName). ''  '' @ toolName @ '': '' @ typeName @ '';'' @ newline)
       (own_property_order reg))"

definition artifact :: "gen_state \<Rightarrow> string" where
  "artifact s =
     typeDefinitions s
     @ newline @ ''// Tool output type mapping'' @ newline
     @ ''// Used in toolRenderers.tsx to ensure type safety'' @ newline
     @ ''export type ToolOutputTypes = {'' @ newline
     @ mapping_lines (toolOutputTypes s)
     @ ''};'' @ newline"

text \<open>The body of the \<^verbatim>\<open>try\<close> block: the calls made and the error thrown, if any.\<close>

definition try_block :: "env \<Rightarrow> effect list \<times> js_error option" where
  "try_block e =
     (case fetch_result e of
        FetchRejected err \<Rightarrow> ([Log FetchingSchemas], Some err)
      | Response ok statusText body \<Rightarrow>
          if \<not> ok then
            ([Log FetchingSchemas], Some (Error (''Failed to fetch schemas: '' @ statusText)))
          else
            (case body of
               Inl err \<Rightarrow> ([Log FetchingSchemas], Some err)
             | Inr data \<Rightarrow>
                 (case get_prop data ''tools'' of
                    Inl err \<Rightarrow> ([Log FetchingSchemas], Some err)
                  | Inr t \<Rightarrow>
                      (let tools = (if truthy t then t else JObj []);
                           fx = [Log FetchingSchemas]
                                  @ (if existsSync_outputDir e then [] else [MkdirSync outputDir])
                       in
                         if \<not> existsSync_outputDir e \<and> mkdirSync_error e \<noteq> None
                         then (fx, mkdirSync_error e)
                         else
                           (case Object_entries tools of
                              Inl err \<Rightarrow> (fx, Some err)
                            | Inr entries \<Rightarrow>
                                (case compile_tools (compile e) entries initial_state of
                                   (s, Some err) \<Rightarrow> (fx @ logged s, Some err)
                                 | (s, None) \<Rightarrow>
                                     (case writeFileSync_error e of
                                        Some err \<Rightarrow>
                                          (fx @ logged s @ [WriteFileSync OUTPUT_FILE (artifact s)],
                                           Some err)
                                      | None \<Rightarrow>
                                          (fx @ logged s
                                             @ [WriteFileSync OUTPUT_FILE (artifact s),
                                                Log (TypesGenerated OUTPUT_FILE)],
                                           None))))))))"

text \<open>
  \<^verbatim>\<open>generateTypes()\<close>: the \<^verbatim>\<open>catch\<close> clause reports the error and exits with status
  1; a run that reaches the end of the \<^verbatim>\<open>try\<close> block exits with status 0.
\<close>

definition generateTypes :: "env \<Rightarrow> effect list \<times> nat" where
  "generateTypes e =
     (case try_block e of
        (fx, None) \<Rightarrow> (fx, 0)
      | (fx, Some err) \<Rightarrow> (fx @ [Log (FailedToGenerate err)], 1))"

text \<open>The contents handed to \<^verbatim>\<open>fs.writeFileSync\<close> for the output file during a run.\<close>

definition written :: "effect list \<Rightarrow> string list" where
  "written fx = concat (map (\<lambda>f. case f of WriteFileSync p content \<Rightarrow> [content] | _ \<Rightarrow> []) fx)"

text \<open>The tool names handed to the compiler during a run, in order.\<close>

definition compiled :: "effect list \<Rightarrow> string list" where
  "compiled fx =
     concat (map (\<lambda>f. case f of Log (GeneratingTypesFor n) \<Rightarrow> [n] | _ \<Rightarrow> []) fx)"

text \<open>
  An entry of the tools mapping whose \<^verbatim>\<open>output\<close> is truthy and compiles to a text that
  holds an interface declaration.
\<close>

definition declares_interface ::
  "(jsval \<Rightarrow> string \<Rightarrow> js_error + string) \<Rightarrow> string \<Rightarrow> jsval \<Rightarrow> bool" where
  "declares_interface c toolName toolData \<longleftrightarrow>
     truthy (read_prop toolData ''output'')
       \<and> (case c (read_prop toolData ''output'') toolName of
             Inl err \<Rightarrow> False
           | Inr tsCode \<Rightarrow> match_export_interface tsCode \<noteq> None)"

text \<open>
  When such an entry ends up in the registry: the assignment of its type name creates
  a property, which it does for every name but \<^verbatim>\<open>__proto__\<close>.
\<close>

definition registers :: "(jsval \<Rightarrow> string \<Rightarrow> js_error + string) \<Rightarrow> string \<Rightarrow> jsval \<Rightarrow> bool" where
  "registers c toolName toolData \<longleftrightarrow>
     toolName \<noteq> ''__proto__'' \<and> declares_interface c toolName toolData"


subsection \<open>The written file in closed form\<close>

text \<open>
  What the output file holds after a run, said without the loop. The interface name of
  a tool entry is the name captured from the text compiled for it, when its
  \<^verbatim>\<open>output\<close> is truthy, compiles, and declares an interface.
\<close>

definition interface_name ::
  "(jsval \<Rightarrow> string \<Rightarrow> js_error + string) \<Rightarrow> string \<Rightarrow> jsval \<Rightarrow> string option" where
  "interface_name c toolName toolData =
     (if truthy (read_prop toolData ''output'') then
        (case c (read_prop toolData ''output'') toolName of
           Inl err \<Rightarrow> None
         | Inr tsCode \<Rightarrow> match_export_interface tsCode)
      else None)"

text \<open>The tools that declare an interface, each with its interface name, in the given order.\<close>

definition interface_pairs ::
  "(jsval \<Rightarrow> string \<Rightarrow> js_error + string) \<Rightarrow> (string \<times> jsval) list \<Rightarrow> (string \<times> string) list" where
  "interface_pairs c entries =
     concat (map (\<lambda>p. case interface_name c (fst p) (snd p) of
                          None \<Rightarrow> []
                        | Some typeName \<Rightarrow> [(fst p, typeName)]) entries)"

text \<open>The same without a tool named \<^verbatim>\<open>__proto__\<close>.\<close>

definition registry_pairs ::
  "(jsval \<Rightarrow> string \<Rightarrow> js_error + string) \<Rightarrow> (string \<times> jsval) list \<Rightarrow> (string \<times> string) list" where
  "registry_pairs c entries = filter (\<lambda>p. fst p \<noteq> ''__proto__'') (interface_pairs c entries)"

text \<open>
  The texts compiled for the tools with a truthy \<^verbatim>\<open>output\<close>, each followed by a line
  break, in the given order.
\<close>

definition compiled_text ::
  "(jsval \<Rightarrow> string \<Rightarrow> js_error + string) \<Rightarrow> (string \<times> jsval) list \<Rightarrow> string" where
  "compiled_text c entries =
     concat (map (\<lambda>p. case c (read_prop (snd p) ''output'') (fst p) of
                          Inl err \<Rightarrow> []
                        | Inr tsCode \<Rightarrow> tsCode @ ''\<newline>'')
               (filter (\<lambda>p. truthy (read_prop (snd p) ''output'')) entries))"

text \<open>
  The file: the banner comment, the type definitions, and the mapping block with one
  line \<^verbatim>\<open>  name: Type;\<close> for each pair, in the given order.
\<close>

definition artifact_text :: "string \<Rightarrow> (string \<times> string) list \<Rightarrow> string" where
  "artifact_text definitions pairs =
     ''/**\<newline> * Auto-generated types from backend tool schemas\<newline>''
     @ '' * Do not edit manually - run \"npm run generate:types\" to update\<newline> */\<newline>\<newline>''
     @ definitions
     @ ''\<newline>// Tool output type mapping\<newline>''
     @ ''// Used in toolRenderers.tsx to ensure type safety\<newline>''
     @ ''export type ToolOutputTypes = {\<newline>''
     @ concat (map (\<lambda>p. ''  '' @ fst p @ '': '' @ snd p @ '';\<newline>'') pairs)
     @ ''};\<newline>''"

section \<open>The generated artifact in the repository (types/tools.ts)\<close>

text \<open>The \<^verbatim>\<open>ToolOutputTypes\<close> mapping type: tool name and the name of its interface.\<close>

definition ToolOutputTypes :: "(string \<times> string) list" where
  "ToolOutputTypes = [(''execute_sql'', ''SQLQueryResult''), (''render_chart'', ''ChartResult'')]"

section \<open>The renderer components\<close>

text \<open>
  What a component returns when React runs it: a tree of elements. Texts outside ASCII
  are named glyphs. \<open>Expr v\<close> is a JavaScript value placed as a child, \<^verbatim>\<open>{v}\<close>, as it is.
  Three conversions are left unevaluated and recorded with their arguments: the number
  formatting of \<^verbatim>\<open>Intl.NumberFormat\<close>, \<^verbatim>\<open>String(value)\<close>, and the template literals
  that build a key or a title from a value.
\<close>

datatype glyph = CrossMark | BarChart | Sun | Degree | EmDash

datatype formatted =
    Plain string
  | Dash
  | NumberFormat jsnum
  | StringOf jsval
  | FormatValueOfMember jsval jsval

datatype react_key = KeyValue jsval | KeyIndex nat | KeyCell nat jsval

datatype attr = ClassName string | Key react_key | Attr string jsval

datatype html =
    Tag string "attr list" "html list"
  | Text string
  | Glyph glyph
  | Expr jsval
  | Formatted formatted
  | DefaultChartTitle jsval

subsection \<open>WeatherResult.tsx\<close>

definition WeatherResult :: "jsval \<Rightarrow> js_error + html" where
  "WeatherResult data =
     (if data = JUndefined \<or> data = JNull then Inl TypeError
      else Inr
        (Tag ''div'' [ClassName ''tool-result weather'']
           [Tag ''div'' [ClassName ''tool-result-header'']
              [Glyph Sun, Text '' Weather for '', Expr (read_prop data ''city'')],
            Tag ''div'' [ClassName ''tool-result-content'']
              [Tag ''p'' []
                 [Tag ''strong'' [] [Text ''Condition:''], Text '' '',
                  Expr (read_prop data ''condition'')],
               Tag ''p'' []
                 [Tag ''strong'' [] [Text ''Temperature:''], Text '' '',
                  Expr (read_prop data ''temperature''), Glyph Degree,
                  Expr (read_prop data ''unit'')]]]))"

subsection \<open>SQLQueryResult.tsx\<close>

fun formatValue :: "jsval \<Rightarrow> formatted" where
  "formatValue JNull = Dash"
| "formatValue JUndefined = Dash"
| "formatValue (JBool b) = (if b then Plain ''true'' else Plain ''false'')"
| "formatValue (JNum n) = NumberFormat n"
| "formatValue v = StringOf v"

text \<open>
  \<^verbatim>\<open>formatValue(row[col])\<close>. Reading a member of \<^verbatim>\<open>undefined\<close> or \<^verbatim>\<open>null\<close> throws.
  For a row that is an object and a column name that is a string: an own property is
  formatted; a name the row lacks and \<^verbatim>\<open>Object.prototype\<close> defines yields the inherited
  member, which is recorded unevaluated; any other name yields \<^verbatim>\<open>undefined\<close>. Any other
  combination of row and column name is recorded unevaluated.
\<close>

fun cell :: "jsval \<Rightarrow> jsval \<Rightarrow> js_error + formatted" where
  "cell JUndefined col = Inl TypeError"
| "cell JNull col = Inl TypeError"
| "cell (JObj kvs) (JStr k) =
     (case map_of kvs k of
        Some v \<Rightarrow> Inr (formatValue v)
      | None \<Rightarrow>
          if k \<in> set Object_prototype_names
          then Inr (FormatValueOfMember (JObj kvs) (JStr k))
          else Inr (formatValue JUndefined))"
| "cell row col = Inr (FormatValueOfMember row col)"

text \<open>\<^verbatim>\<open>xs.map(f)\<close> for a callback that may throw: the first throw ends the loop.\<close>

fun map_throwing :: "('a \<Rightarrow> js_error + 'b) \<Rightarrow> 'a list \<Rightarrow> js_error + 'b list" where
  "map_throwing f [] = Inr []"
| "map_throwing f (x # xs) =
     (case f x of
        Inl e \<Rightarrow> Inl e
      | Inr y \<Rightarrow> (case map_throwing f xs of Inl e \<Rightarrow> Inl e | Inr ys \<Rightarrow> Inr (y # ys)))"

text \<open>
  \<^verbatim>\<open>v.map\<close> exists on arrays only: on \<^verbatim>\<open>undefined\<close> and \<^verbatim>\<open>null\<close> the read throws,
  on any other value of this model the call of the missing method throws.
\<close>

fun array_elements :: "jsval \<Rightarrow> js_error + jsval list" where
  "array_elements (JArr xs) = Inr xs"
| "array_elements v = Inl TypeError"

definition table_row :: "jsval list \<Rightarrow> nat \<times> jsval \<Rightarrow> js_error + html" where
  "table_row cols p =
     (case map_throwing
             (\<lambda>col. case cell (snd p) col of
                       Inl e \<Rightarrow> Inl e
                     | Inr text \<Rightarrow> Inr (Tag ''td'' [Key (KeyCell (fst p) col)] [Formatted text]))
             cols of
        Inl e \<Rightarrow> Inl e
      | Inr tds \<Rightarrow> Inr (Tag ''tr'' [Key (KeyIndex (fst p))] tds))"

definition results_table :: "jsval \<Rightarrow> js_error + html" where
  "results_table data =
     (case array_elements (read_prop data ''column_names'') of
        Inl e \<Rightarrow> Inl e
      | Inr cols \<Rightarrow>
          (case array_elements (read_prop data ''rows'') of
             Inl e \<Rightarrow> Inl e
           | Inr rows \<Rightarrow>
               (case map_throwing (table_row cols) (zip [0..<length rows] rows) of
                  Inl e \<Rightarrow> Inl e
                | Inr trs \<Rightarrow>
                    Inr (Tag ''div'' [ClassName ''table-container'']
                           [Tag ''table'' [ClassName ''results-table'']
                              [Tag ''thead'' []
                                 [Tag ''tr'' []
                                    (map (\<lambda>col. Tag ''th'' [Key (KeyValue col)] [Expr col]) cols)],
                               Tag ''tbody'' [] trs]]))))"

definition SQLQueryResult :: "jsval \<Rightarrow> js_error + html" where
  "SQLQueryResult data =
     (if data = JUndefined \<or> data = JNull then Inl TypeError
      else if \<not> truthy (read_prop data ''success'') then
        Inr (Tag ''div'' [ClassName ''tool-result sql-error'']
               [Tag ''div'' [ClassName ''tool-result-header'']
                  [Glyph CrossMark, Text '' SQL Query Error''],
                Tag ''div'' [ClassName ''tool-result-content'']
                  [Tag ''div'' [ClassName ''query-display'']
                     [Tag ''code'' [] [Expr (read_prop data ''query'')]],
                   Tag ''p'' [ClassName ''error-message''] [Expr (read_prop data ''error'')]]])
      else
        (case (if read_prop data ''row_count'' = JNum (Finite 0)
               then Inr (Tag ''p'' [ClassName ''no-results''] [Text ''No results returned''])
               else results_table data) of
           Inl e \<Rightarrow> Inl e
         | Inr body \<Rightarrow>
             Inr (Tag ''div'' [ClassName ''tool-result sql-query'']
                    [Tag ''div'' [ClassName ''tool-result-header'']
                       [Glyph BarChart, Text '' SQL Query Results ('',
                        Expr (read_prop data ''row_count''), Text '' row'',
                        Text (if read_prop data ''row_count'' \<noteq> JNum (Finite 1) then ''s'' else []),
                        Text '')'',
                        Tag ''span'' [ClassName ''result-id'']
                          [Text ''#'', Expr (read_prop data ''id'')]],
                     Tag ''div'' [ClassName ''tool-result-content'']
                       [Tag ''div'' [ClassName ''query-display'']
                          [Tag ''code'' [] [Expr (read_prop data ''query'')]],
                        body]])))"

subsection \<open>ChartResult.tsx\<close>

text \<open>\<^verbatim>\<open>rows.length\<close> of a truthy value.\<close>

fun length_of :: "jsval \<Rightarrow> jsval" where
  "length_of (JArr xs) = JNum (Finite (of_nat (length xs)))"
| "length_of (JStr s) = JNum (Finite (of_nat (length s)))"
| "length_of v = read_prop v ''length''"

text \<open>
  The component, with \<^verbatim>\<open>renderChart(type, data, xKey, yKeys)\<close>, the switch over the
  charting library's components, as the parameter \<open>renderChart\<close>.
\<close>

definition ChartResult ::
  "(jsval \<Rightarrow> jsval \<Rightarrow> jsval \<Rightarrow> jsval \<Rightarrow> js_error + html) \<Rightarrow> jsval \<Rightarrow> js_error + html" where
  "ChartResult renderChart data =
     (if data = JUndefined \<or> data = JNull then Inl TypeError
      else if \<not> truthy (read_prop data ''success'') then
        Inr (Tag ''div'' [ClassName ''tool-result chart-error'']
               [Tag ''div'' [ClassName ''tool-result-header'']
                  [Glyph CrossMark, Text '' Chart Rendering Error''],
                Tag ''div'' [ClassName ''tool-result-content'']
                  [Tag ''p'' [ClassName ''error-message''] [Expr (read_prop data ''error'')]]])
      else
        let rows = read_prop data ''rows'';
            config = read_prop data ''config''
        in
          if \<not> truthy rows \<or> length_of rows = JNum (Finite 0) then
            Inr (Tag ''div'' [ClassName ''tool-result chart-empty'']
                   [Tag ''div'' [ClassName ''tool-result-header''] [Glyph BarChart, Text '' Chart''],
                    Tag ''div'' [ClassName ''tool-result-content'']
                      [Tag ''p'' [ClassName ''no-results'']
                         [Text ''No data available to render chart'']]])
          else
            (case get_prop config ''title'' of
               Inl e \<Rightarrow> Inl e
             | Inr title \<Rightarrow>
                 let chartTitle =
                       (if truthy title then Expr title
                        else DefaultChartTitle (read_prop config ''chart_type''))
                 in
                   (case renderChart (read_prop config ''chart_type'') rows
                           (read_prop config ''x_key'') (read_prop config ''y_keys'') of
                      Inl e \<Rightarrow> Inl e
                    | Inr chart \<Rightarrow>
                        Inr (Tag ''div'' [ClassName ''tool-result chart-result'']
                               [Tag ''div'' [ClassName ''tool-result-header'']
                                  [Glyph BarChart, Text '' '', chartTitle],
                                Tag ''div'' [ClassName ''tool-result-content chart-content'']
                                  [Tag ''ResponsiveContainer''
                                     [Attr ''width'' (JStr ''100%''),
                                      Attr ''height'' (JNum (Finite 400))]
                                     [chart],
                                   (if truthy (read_prop data ''explanation'') then
                                      Tag ''div'' [ClassName ''chart-explanation'']
                                        [Expr (read_prop data ''explanation'')]
                                    else Expr (read_prop data ''explanation''))]]))))"

section \<open>Sample inputs\<close>

text \<open>Scenario B's weather output.\<close>

definition tokyo :: jsval where
  "tokyo = JObj [(''city'', JStr ''Tokyo''), (''temperature'', JNum (Finite 18))]"

text \<open>
  An \<^verbatim>\<open>execute_sql\<close> output with every required field of the generated
  \<^verbatim>\<open>SQLQueryResult\<close> interface and without the optional \<^verbatim>\<open>error\<close> and
  \<^verbatim>\<open>column_names\<close>.
\<close>

definition sql_without_column_names :: jsval where
  "sql_without_column_names =
     JObj [(''id'', JStr ''q1''), (''success'', JBool True), (''query'', JStr ''SELECT 1 AS a''),
           (''rows'', JArr [JObj [(''a'', JNum (Finite 1))]]), (''row_count'', JNum (Finite 1))]"

text \<open>The schemas of the sample responses.\<close>

definition object_schema :: "string \<Rightarrow> jsval" where
  "object_schema title = JObj [(''title'', JStr title), (''type'', JStr ''object'')]"

definition string_schema :: "string \<Rightarrow> jsval" where
  "string_schema title = JObj [(''title'', JStr title), (''type'', JStr ''string'')]"

definition array_schema :: "string \<Rightarrow> jsval" where
  "array_schema title = JObj [(''title'', JStr title), (''type'', JStr ''array'')]"

text \<open>A schema that is a reference to a definition it does not hold.\<close>

definition dangling_ref_schema :: jsval where
  "dangling_ref_schema = JObj [(''$ref'', JStr ''#/definitions/Missing'')]"

text \<open>
  A stand-in for the schema compiler, answering for the sample schemas only: a schema
  of exactly a title and the type \<^verbatim>\<open>object\<close> gives an open interface named by the
  title, one of a title and the type \<^verbatim>\<open>string\<close> or \<^verbatim>\<open>array\<close> gives a type alias,
  and the dangling reference is rejected, its pointer not being found. For any other
  schema the stand-in has no answer to give and is not used.
\<close>

definition sample_compile :: "jsval \<Rightarrow> string \<Rightarrow> js_error + string" where
  "sample_compile schema name =
     (if schema = dangling_ref_schema then Inl (Error ''Error resolving $ref pointer'')
      else
        (case (read_prop schema ''title'', read_prop schema ''type'') of
           (JStr title, JStr ty) \<Rightarrow>
             if schema = object_schema title then
               Inr (''export interface '' @ title @ '' {\<newline>  [k: string]: unknown;\<newline>}\<newline>'')
             else if schema = string_schema title then
               Inr (''export type '' @ title @ '' = string;\<newline>'')
             else if schema = array_schema title then
               Inr (''export type '' @ title @ '' = unknown[];\<newline>'')
             else Inl (Error ''not a sample schema'')
         | _ \<Rightarrow> Inl (Error ''not a sample schema'')))"

text \<open>The same stand-in, answering only when asked about one of the given tool names.\<close>

definition sample_compile_for :: "string list \<Rightarrow> jsval \<Rightarrow> string \<Rightarrow> js_error + string" where
  "sample_compile_for names schema name =
     (if name \<in> set names then sample_compile schema name else Inl (Error ''not asked''))"

definition tool :: "jsval \<Rightarrow> jsval" where
  "tool schema = JObj [(''output'', schema)]"

text \<open>A run whose fetch succeeds with the given tools mapping and whose file system calls succeed.\<close>

definition env_of :: "(string \<times> jsval) list \<Rightarrow> env" where
  "env_of tools =
     \<lparr>fetch_result = Response True ''OK'' (Inr (JObj [(''tools'', JObj tools)])),
      compile = sample_compile,
      existsSync_outputDir = True,
      mkdirSync_error = None,
      writeFileSync_error = None\<rparr>"

definition weather_and_greeting :: "(string \<times> jsval) list" where
  "weather_and_greeting =
     [(''get_weather'', tool (object_schema ''Weather'')),
      (''greet'', tool (string_schema ''Greeting''))]"


definition b_then_1 :: "(string \<times> jsval) list" where
  "b_then_1 = [(''b'', tool (object_schema ''B'')), (''1'', tool (object_schema ''One''))]"

text \<open>
  Runs that fail: the fetch rejects, the response is a 404, a schema does not compile
  after one that does.
\<close>

definition env_rejected :: env where
  "env_rejected = (env_of [])\<lparr>fetch_result := FetchRejected (Error ''fetch failed'')\<rparr>"

definition env_not_found :: env where
  "env_not_found =
     (env_of [])\<lparr>fetch_result := Response False ''Not Found'' (Inl (Error ''not read''))\<rparr>"

definition weather_and_dangling :: "(string \<times> jsval) list" where
  "weather_and_dangling =
     [(''get_weather'', tool (object_schema ''Weather'')),
      (''lookup'', tool dangling_ref_schema)]"

section \<open>Facts about the model\<close>

subsection \<open>Property reads and strings\<close>

lemma get_prop_Inr: "get_prop v k = Inr x \<Longrightarrow> x = read_prop v k"
  by (cases v) auto

lemma hasToolRenderer_own_key:
  assumes "map_of toolRenderers toolName = Some c"
  shows "hasToolRenderer toolName"
proof -
  from assms have "toolName \<in> set (map fst toolRenderers)"
    by (metis map_of_eq_None_iff option.distinct(1) set_map)
  thus ?thesis by (simp add: hasToolRenderer_def)
qed

subsection \<open>Property order\<close>

lemmas index_simps =
  own_property_order_def is_array_index_def is_digit_def parse_nat_def digit_value_def

lemma own_property_order_no_index:
  "list_all (\<lambda>kv. \<not> is_array_index (fst kv)) kvs \<Longrightarrow> own_property_order kvs = kvs"
  by (simp add: own_property_order_def list_all_iff
      filter_empty_conv [THEN iffD2] filter_id_conv [THEN iffD2])


lemma distinct_own_property_order:
  "distinct (map fst kvs) \<Longrightarrow> distinct (map fst (own_property_order kvs))"
  by (auto simp: own_property_order_def distinct_map_filter distinct_map inj_on_def)

subsection \<open>The compile loop\<close>

lemma keys_assign_property:
  "map fst (assign_property obj name v) =
     (if name = ''__proto__'' \<or> name \<in> set (map fst obj) then map fst obj
      else map fst obj @ [name])"
  by (simp add: assign_property_def AList.update_keys)

text \<open>One round of the loop that goes on to finish without a throw.\<close>

lemma compile_tools_step:
  assumes "compile_tools c ((n, d) # rest) s = (s', None)"
  shows "\<exists>s1. compile_tools c rest s1 = (s', None)
           \<and> logged s1 = logged s @ (if truthy (read_prop d ''output'')
                                      then [Log (GeneratingTypesFor n)] else [])
           \<and> map fst (toolOutputTypes s1) =
               (if registers c n d \<and> n \<notin> set (map fst (toolOutputTypes s))
                then map fst (toolOutputTypes s) @ [n] else map fst (toolOutputTypes s))
           \<and> (truthy (read_prop d ''output'') \<longrightarrow>
                 (\<exists>tsCode. c (read_prop d ''output'') n = Inr tsCode))"
proof (cases "get_prop d ''output''")
  case (Inl e)
  with assms show ?thesis by simp
next
  case (Inr out)
  hence out: "out = read_prop d ''output''" by (rule get_prop_Inr)
  show ?thesis
  proof (cases "truthy out")
    case False
    with assms Inr have "compile_tools c rest s = (s', None)" by simp
    with False out show ?thesis by (auto simp: registers_def declares_interface_def)
  next
    case True
    show ?thesis
    proof (cases "c out n")
      case (Inl e)
      with assms Inr True show ?thesis by (simp add: Let_def)
    next
      case code: (Inr tsCode)
      show ?thesis
      proof (cases "match_export_interface tsCode")
        case None
        let ?s1 = "s\<lparr>logged := logged s @ [Log (GeneratingTypesFor n)],
                     typeDefinitions := typeDefinitions s @ tsCode @ newline\<rparr>"
        from assms Inr True code None have "compile_tools c rest ?s1 = (s', None)"
          by (simp add: Let_def)
        moreover from None code out have "\<not> registers c n d" by (simp add: registers_def declares_interface_def)
        ultimately show ?thesis using True code out
          by (intro exI [of _ ?s1]) simp
      next
        case (Some typeName)
        let ?s1 = "s\<lparr>logged := logged s @ [Log (GeneratingTypesFor n)],
                     typeDefinitions := typeDefinitions s @ tsCode @ newline,
                     toolOutputTypes := assign_property (toolOutputTypes s) n typeName\<rparr>"
        from assms Inr True code Some have "compile_tools c rest ?s1 = (s', None)"
          by (simp add: Let_def)
        moreover from Some code out True
        have "registers c n d \<longleftrightarrow> n \<noteq> ''__proto__''" by (simp add: registers_def declares_interface_def)
        ultimately show ?thesis using True code out
          by (intro exI [of _ ?s1]) (auto simp: keys_assign_property)
      qed
    qed
  qed
qed

lemma compile_tools_compiles:
  "compile_tools c entries s = (s', None) \<Longrightarrow> (n, d) \<in> set entries \<Longrightarrow>
     truthy (read_prop d ''output'') \<Longrightarrow> \<exists>tsCode. c (read_prop d ''output'') n = Inr tsCode"
proof (induction entries arbitrary: s)
  case Nil
  then show ?case by simp
next
  case (Cons p entries)
  obtain n' d' where p: "p = (n', d')" by (cases p)
  from Cons.prems(1) [unfolded p, THEN compile_tools_step] obtain s1 where
    s1: "compile_tools c entries s1 = (s', None)"
      "truthy (read_prop d' ''output'') \<longrightarrow> (\<exists>tsCode. c (read_prop d' ''output'') n' = Inr tsCode)"
    by blast
  from Cons.prems(2) have "(n, d) = (n', d') \<or> (n, d) \<in> set entries" by (simp add: p)
  thus ?case using s1(2) Cons.IH [OF s1(1)] Cons.prems(3) by blast
qed

lemma compile_tools_logged:
  "compile_tools c entries s = (s', None) \<Longrightarrow>
     logged s' = logged s @ map (\<lambda>p. Log (GeneratingTypesFor (fst p)))
                   (filter (\<lambda>p. truthy (read_prop (snd p) ''output'')) entries)"
proof (induction entries arbitrary: s)
  case Nil
  then show ?case by simp
next
  case (Cons p entries)
  obtain n d where p: "p = (n, d)" by (cases p)
  from Cons.prems [unfolded p, THEN compile_tools_step] obtain s1 where
    s1: "compile_tools c entries s1 = (s', None)"
      "logged s1 = logged s @ (if truthy (read_prop d ''output'')
                                      then [Log (GeneratingTypesFor n)] else [])"
    by blast
  from Cons.IH [OF s1(1)] s1(2) show ?case by (simp add: p)
qed

subsection \<open>The calls of a run\<close>

lemma written_append: "written (a @ b) = written a @ written b"
  by (simp add: written_def)

lemma written_simps:
  "written [] = []"
  "written (Log m # fx) = written fx"
  "written (MkdirSync p # fx) = written fx"
  "written (WriteFileSync p content # fx) = content # written fx"
  by (simp_all add: written_def)

lemma compiled_append: "compiled (a @ b) = compiled a @ compiled b"
  by (simp add: compiled_def)

lemma compiled_simps:
  "compiled [] = []"
  "compiled (Log (GeneratingTypesFor n) # fx) = n # compiled fx"
  "compiled (Log FetchingSchemas # fx) = compiled fx"
  "compiled (Log (TypesGenerated p) # fx) = compiled fx"
  "compiled (Log (FailedToGenerate err) # fx) = compiled fx"
  "compiled (MkdirSync p # fx) = compiled fx"
  "compiled (WriteFileSync p content # fx) = compiled fx"
  by (simp_all add: compiled_def)

lemma compiled_generating:
  "compiled (map (\<lambda>p. Log (GeneratingTypesFor (fst p))) xs) = map fst xs"
  by (induction xs) (simp_all add: compiled_simps)

lemma compile_tools_logs_only:
  "compile_tools c entries s = (s', r) \<Longrightarrow> written (logged s') = written (logged s)"
  by (induction entries arbitrary: s)
     (auto simp: Let_def written_def split: sum.splits option.splits if_splits)

lemma written_logged_loop:
  "compile_tools c entries initial_state = (s, r) \<Longrightarrow> written (logged s) = []"
  by (drule compile_tools_logs_only) (simp add: initial_state_def written_simps)

lemma try_block_rejected:
  "fetch_result e = FetchRejected err \<Longrightarrow> try_block e = ([Log FetchingSchemas], Some err)"
  by (simp add: try_block_def)

lemma try_block_not_ok:
  "fetch_result e = Response False st body \<Longrightarrow>
     try_block e = ([Log FetchingSchemas], Some (Error (''Failed to fetch schemas: '' @ st)))"
  by (simp add: try_block_def)

lemma try_block_error_no_write:
  assumes "try_block e = (fx, Some err)" and "writeFileSync_error e = None"
  shows "written fx = []"
  using assms
  by (auto simp: try_block_def Let_def written_simps written_append
      split: fetch_outcome.splits sum.splits if_splits prod.splits option.splits
      dest: written_logged_loop)

lemma try_block_success:
  assumes "try_block e = (fx, None)"
  shows "\<exists>st data t entries s.
           fetch_result e = Response True st (Inr data)
         \<and> get_prop data ''tools'' = Inr t
         \<and> Object_entries (if truthy t then t else JObj []) = Inr entries
         \<and> compile_tools (compile e) entries initial_state = (s, None)
         \<and> writeFileSync_error e = None
         \<and> fx = [Log FetchingSchemas]
                  @ (if existsSync_outputDir e then [] else [MkdirSync outputDir])
                  @ logged s
                  @ [WriteFileSync OUTPUT_FILE (artifact s), Log (TypesGenerated OUTPUT_FILE)]"
  using assms
  by (auto simp: try_block_def Let_def
      split: fetch_outcome.splits sum.splits if_splits prod.splits option.splits)

lemma generateTypes_exit_0:
  "snd (generateTypes e) = 0 \<longleftrightarrow> snd (try_block e) = None"
  by (cases "try_block e") (auto simp: generateTypes_def split: option.splits)

lemma generateTypes_success:
  assumes "snd (generateTypes e) = 0"
  shows "\<exists>st data t entries s.
           fetch_result e = Response True st (Inr data)
         \<and> get_prop data ''tools'' = Inr t
         \<and> Object_entries (if truthy t then t else JObj []) = Inr entries
         \<and> compile_tools (compile e) entries initial_state = (s, None)
         \<and> writeFileSync_error e = None
         \<and> fst (generateTypes e) = [Log FetchingSchemas]
                  @ (if existsSync_outputDir e then [] else [MkdirSync outputDir])
                  @ logged s
                  @ [WriteFileSync OUTPUT_FILE (artifact s), Log (TypesGenerated OUTPUT_FILE)]"
proof -
  from assms obtain fx where fx: "try_block e = (fx, None)"
    by (cases "try_block e") (auto simp: generateTypes_exit_0)
  hence "fst (generateTypes e) = fx" by (simp add: generateTypes_def)
  with try_block_success [OF fx] show ?thesis by simp
qed

lemma generateTypes_written:
  assumes "fst (generateTypes e) = [Log FetchingSchemas]
                  @ (if existsSync_outputDir e then [] else [MkdirSync outputDir])
                  @ logged s
                  @ [WriteFileSync OUTPUT_FILE (artifact s), Log (TypesGenerated OUTPUT_FILE)]"
    and "compile_tools c entries initial_state = (s, None)"
  shows "written (fst (generateTypes e)) = [artifact s]"
  using written_logged_loop [OF assms(2)]
  by (simp add: assms(1) written_append written_simps)

subsection \<open>Property order is stable\<close>

lemma own_property_order_ordered:
  assumes "list_all (\<lambda>kv. is_array_index (fst kv)) u"
    and "list_all (\<lambda>kv. \<not> is_array_index (fst kv)) v"
    and "sorted (map (\<lambda>kv. parse_nat (fst kv)) u)"
  shows "own_property_order (u @ v) = u @ v"
proof -
  have "filter (\<lambda>kv. is_array_index (fst kv)) (u @ v) = u"
    using assms(1,2)
    by (simp add: list_all_iff filter_id_conv [THEN iffD2] filter_empty_conv [THEN iffD2])
  moreover have "filter (\<lambda>kv. \<not> is_array_index (fst kv)) (u @ v) = v"
    using assms(1,2)
    by (simp add: list_all_iff filter_id_conv [THEN iffD2] filter_empty_conv [THEN iffD2])
  moreover have "sort_key (\<lambda>kv. parse_nat (fst kv)) u = u"
    using assms(3) by (rule sort_key_id_if_sorted)
  ultimately show ?thesis by (simp add: own_property_order_def)
qed

text \<open>
  An object whose properties were created in the order of a selection of another
  object's listing is listed in its creation order.
\<close>

lemma own_property_order_same_keys:
  fixes ys :: "(string \<times> 'b) list" and xs :: "(string \<times> 'a) list"
  assumes "map fst ys = map fst (filter P (own_property_order xs))"
  shows "own_property_order ys = ys"
proof -
  let ?f = "\<lambda>kv::string \<times> 'a. parse_nat (fst kv)"
  let ?a = "filter P (sort_key ?f (filter (\<lambda>kv. is_array_index (fst kv)) xs))"
  let ?b = "filter P (filter (\<lambda>kv. \<not> is_array_index (fst kv)) xs)"
  let ?u = "take (length ?a) ys" and ?v = "drop (length ?a) ys"
  from assms have keys: "map fst ys = map fst ?a @ map fst ?b"
    by (simp add: own_property_order_def)
  hence u: "map fst ?u = map fst ?a" and v: "map fst ?v = map fst ?b"
    by (simp_all add: take_map [symmetric] drop_map [symmetric])
  have "list_all is_array_index (map fst ?a)" by (auto simp: list_all_iff)
  hence 1: "list_all (\<lambda>kv. is_array_index (fst kv)) ?u"
    unfolding u [symmetric] by (simp add: list_all_iff)
  have "list_all (\<lambda>k. \<not> is_array_index k) (map fst ?b)" by (auto simp: list_all_iff)
  hence 2: "list_all (\<lambda>kv. \<not> is_array_index (fst kv)) ?v"
    unfolding v [symmetric] by (simp add: list_all_iff)
  have "sorted (map ?f ?a)" by (intro sorted_filter) simp
  hence "sorted (map parse_nat (map fst ?a))" by (simp add: comp_def)
  hence "sorted (map parse_nat (map fst ?u))" by (simp only: u)
  hence 3: "sorted (map (\<lambda>kv. parse_nat (fst kv)) ?u)" by (simp add: comp_def)
  from own_property_order_ordered [OF 1 2 3] show ?thesis by simp
qed

subsection \<open>A write comes after the whole loop\<close>

lemma try_block_write_after_loop:
  assumes "written (fst (try_block e)) \<noteq> []"
  shows "\<exists>st data t entries s.
           fetch_result e = Response True st (Inr data)
         \<and> get_prop data ''tools'' = Inr t
         \<and> Object_entries (if truthy t then t else JObj []) = Inr entries
         \<and> compile_tools (compile e) entries initial_state = (s, None)"
  using assms
  by (auto simp: try_block_def Let_def written_simps written_append
      split: fetch_outcome.splits sum.splits if_splits prod.splits option.splits
      dest: written_logged_loop)

lemma written_generateTypes:
  "written (fst (generateTypes e)) = written (fst (try_block e))"
  by (cases "try_block e")
     (auto simp: generateTypes_def written_append written_simps split: option.splits)

lemma generateTypes_exit_code: "snd (generateTypes e) = 0 \<or> snd (generateTypes e) = 1"
  by (cases "try_block e") (auto simp: generateTypes_def split: option.splits)

lemma loop_throw_aborts:
  assumes "fetch_result e = Response True st (Inr data)"
    and "get_prop data ''tools'' = Inr t"
    and "Object_entries (if truthy t then t else JObj []) = Inr entries"
    and "(n, d) \<in> set entries" and "truthy (read_prop d ''output'')"
    and "compile e (read_prop d ''output'') n = Inl err"
  shows "snd (generateTypes e) = 1 \<and> written (fst (generateTypes e)) = []"
proof -
  have no_finish: "compile_tools (compile e) entries initial_state \<noteq> (s, None)" for s
    using compile_tools_compiles [of "compile e" entries initial_state s n d] assms(4-6)
    by auto
  have "snd (generateTypes e) \<noteq> 0"
  proof
    assume "snd (generateTypes e) = 0"
    from generateTypes_success [OF this] assms(1-3) no_finish show False by auto
  qed
  moreover have "written (fst (try_block e)) = []"
  proof (rule ccontr)
    assume "written (fst (try_block e)) \<noteq> []"
    from try_block_write_after_loop [OF this] assms(1-3) no_finish show False by auto
  qed
  ultimately show ?thesis
    using generateTypes_exit_code [of e] by (simp add: written_generateTypes)
qed

subsection \<open>Output keys\<close>


subsection \<open>The loop in closed form\<close>

lemma declares_interface_iff:
  "declares_interface c n d \<longleftrightarrow> interface_name c n d \<noteq> None"
  by (simp add: declares_interface_def interface_name_def split: sum.splits)

lemma interface_pairs_Cons:
  "interface_pairs c (p # ps) =
     (case interface_name c (fst p) (snd p) of None \<Rightarrow> [] | Some t \<Rightarrow> [(fst p, t)])
       @ interface_pairs c ps"
  by (simp add: interface_pairs_def)

lemma registry_pairs_Cons:
  "registry_pairs c (p # ps) =
     (case interface_name c (fst p) (snd p) of
        None \<Rightarrow> []
      | Some t \<Rightarrow> if fst p = ''__proto__'' then [] else [(fst p, t)])
       @ registry_pairs c ps"
  by (simp add: registry_pairs_def interface_pairs_Cons split: option.splits)

text \<open>The assignments of the registry pairs, one after the other.\<close>

lemma compile_tools_round:
  assumes "compile_tools c (p # rest) s = (s', None)"
  shows "\<exists>s1. compile_tools c rest s1 = (s', None)
           \<and> typeDefinitions s1 = typeDefinitions s @ compiled_text c [p]
           \<and> toolOutputTypes s1 =
               foldl (\<lambda>reg q. AList.update (fst q) (snd q) reg) (toolOutputTypes s)
                 (registry_pairs c [p])"
proof -
  obtain n d where p: "p = (n, d)" by (cases p)
  show ?thesis
  proof (cases "get_prop d ''output''")
    case (Inl e)
    with assms p show ?thesis by simp
  next
    case (Inr out)
    hence out: "out = read_prop d ''output''" by (rule get_prop_Inr)
    show ?thesis
    proof (cases "truthy out")
      case False
      with assms Inr p have "compile_tools c rest s = (s', None)" by simp
      with False out show ?thesis
        by (intro exI [of _ s])
           (simp add: p compiled_text_def registry_pairs_def interface_pairs_def
              interface_name_def)
    next
      case True
      show ?thesis
      proof (cases "c out n")
        case (Inl e)
        with assms Inr True p show ?thesis by (simp add: Let_def)
      next
        case code: (Inr tsCode)
        show ?thesis
        proof (cases "match_export_interface tsCode")
          case None
          let ?s1 = "s\<lparr>logged := logged s @ [Log (GeneratingTypesFor n)],
                       typeDefinitions := typeDefinitions s @ tsCode @ newline\<rparr>"
          from assms Inr True code None p have "compile_tools c rest ?s1 = (s', None)"
            by (simp add: Let_def)
          with True code out None show ?thesis
            by (intro exI [of _ ?s1])
               (simp add: p compiled_text_def registry_pairs_def interface_pairs_def
                  interface_name_def newline_def)
        next
          case (Some typeName)
          let ?s1 = "s\<lparr>logged := logged s @ [Log (GeneratingTypesFor n)],
                       typeDefinitions := typeDefinitions s @ tsCode @ newline,
                       toolOutputTypes := assign_property (toolOutputTypes s) n typeName\<rparr>"
          from assms Inr True code Some p have "compile_tools c rest ?s1 = (s', None)"
            by (simp add: Let_def)
          with True code out Some show ?thesis
            by (intro exI [of _ ?s1])
               (simp add: p compiled_text_def registry_pairs_def interface_pairs_def
                  interface_name_def newline_def assign_property_def)
        qed
      qed
    qed
  qed
qed

lemma compile_tools_closed:
  "compile_tools c entries s = (s', None) \<Longrightarrow>
     typeDefinitions s' = typeDefinitions s @ compiled_text c entries
     \<and> toolOutputTypes s' =
         foldl (\<lambda>reg q. AList.update (fst q) (snd q) reg) (toolOutputTypes s)
           (registry_pairs c entries)"
proof (induction entries arbitrary: s)
  case Nil
  then show ?case by (simp add: compiled_text_def registry_pairs_def interface_pairs_def)
next
  case (Cons p entries)
  from compile_tools_round [OF Cons.prems] obtain s1 where
    s1: "compile_tools c entries s1 = (s', None)"
      "typeDefinitions s1 = typeDefinitions s @ compiled_text c [p]"
      "toolOutputTypes s1 =
         foldl (\<lambda>reg q. AList.update (fst q) (snd q) reg) (toolOutputTypes s)
           (registry_pairs c [p])"
    by blast
  have 1: "compiled_text c (p # entries) = compiled_text c [p] @ compiled_text c entries"
    by (simp add: compiled_text_def)
  have 2: "registry_pairs c (p # entries) = registry_pairs c [p] @ registry_pairs c entries"
    by (simp add: registry_pairs_def interface_pairs_def)
  from Cons.IH [OF s1(1)] show ?case by (simp add: s1(2,3) 1 2)
qed

lemma update_fresh:
  "k \<notin> set (map fst al) \<Longrightarrow> AList.update k v al = al @ [(k, v)]"
  by (induction al) auto

lemma foldl_update_fresh:
  "distinct (map fst ps) \<Longrightarrow> set (map fst ps) \<inter> set (map fst al) = {} \<Longrightarrow>
     foldl (\<lambda>reg q. AList.update (fst q) (snd q) reg) al ps = al @ ps"
proof (induction ps arbitrary: al)
  case Nil
  then show ?case by simp
next
  case (Cons p ps)
  from Cons.prems have fresh: "fst p \<notin> set (map fst al)" by auto
  have "set (map fst ps) \<inter> set (map fst (al @ [p])) = {}"
    using Cons.prems by auto
  with Cons.IH [of "al @ [p]"] Cons.prems(1) show ?case
    by (simp add: update_fresh [OF fresh])
qed


lemma keys_registry_pairs:
  "map fst (registry_pairs c entries) =
     map fst (filter (\<lambda>p. registers c (fst p) (snd p)) entries)"
  by (induction entries)
     (auto simp: registry_pairs_Cons registers_def declares_interface_iff registry_pairs_def
        interface_pairs_def)


text \<open>Over a listing in property order with distinct names, the registry is the list of pairs.\<close>

lemma registry_closed:
  assumes "compile_tools c (own_property_order kvs) initial_state = (s, None)"
    and "distinct (map fst kvs)"
  shows "typeDefinitions s = banner @ compiled_text c (own_property_order kvs)"
    and "own_property_order (toolOutputTypes s) = registry_pairs c (own_property_order kvs)"
proof -
  let ?entries = "own_property_order kvs"
  from compile_tools_closed [OF assms(1)]
  have td: "typeDefinitions s = banner @ compiled_text c ?entries"
    and reg: "toolOutputTypes s =
                foldl (\<lambda>reg q. AList.update (fst q) (snd q) reg) [] (registry_pairs c ?entries)"
    by (simp_all add: initial_state_def)
  show "typeDefinitions s = banner @ compiled_text c ?entries" by (rule td)
  have "distinct (map fst ?entries)" using assms(2) by (rule distinct_own_property_order)
  hence "distinct (map fst (registry_pairs c ?entries))"
    by (simp add: keys_registry_pairs distinct_map_filter)
  hence "toolOutputTypes s = registry_pairs c ?entries"
    unfolding reg using foldl_update_fresh [of "registry_pairs c ?entries" "[]"] by simp
  moreover have "own_property_order (registry_pairs c ?entries) = registry_pairs c ?entries"
    using keys_registry_pairs [of c ?entries] by (rule own_property_order_same_keys)
  ultimately show "own_property_order (toolOutputTypes s) = registry_pairs c ?entries"
    by simp
qed

lemma artifact_closed:
  assumes "typeDefinitions s = banner @ definitions"
    and "own_property_order (toolOutputTypes s) = pairs"
  shows "artifact s = artifact_text definitions pairs"
  using assms
  by (simp add: artifact_def artifact_text_def mapping_lines_def banner_def newline_def
      case_prod_unfold)

text \<open>The calls of a successful run on an object of tools, without the loop.\<close>

lemma generateTypes_closed_form:
  assumes "fetch_result e = Response True st (Inr data)"
    and "get_prop data ''tools'' = Inr t"
    and "(if truthy t then t else JObj []) = JObj kvs"
    and "distinct (map fst kvs)"
    and "snd (generateTypes e) = 0"
  shows "fst (generateTypes e) =
           [Log FetchingSchemas]
           @ (if existsSync_outputDir e then [] else [MkdirSync outputDir])
           @ map (\<lambda>p. Log (GeneratingTypesFor (fst p)))
               (filter (\<lambda>p. truthy (read_prop (snd p) ''output'')) (own_property_order kvs))
           @ [WriteFileSync OUTPUT_FILE
                (artifact_text (compiled_text (compile e) (own_property_order kvs))
                   (registry_pairs (compile e) (own_property_order kvs))),
              Log (TypesGenerated OUTPUT_FILE)]"
proof -
  from generateTypes_success [OF assms(5)] assms(1,2) obtain entries s where
    entries: "Object_entries (if truthy t then t else JObj []) = Inr entries"
    and loop: "compile_tools (compile e) entries initial_state = (s, None)"
    and fx: "fst (generateTypes e) = [Log FetchingSchemas]
                  @ (if existsSync_outputDir e then [] else [MkdirSync outputDir])
                  @ logged s
                  @ [WriteFileSync OUTPUT_FILE (artifact s), Log (TypesGenerated OUTPUT_FILE)]"
    by auto
  from entries assms(3) have e: "entries = own_property_order kvs" by simp
  have lg: "logged s = map (\<lambda>p. Log (GeneratingTypesFor (fst p)))
               (filter (\<lambda>p. truthy (read_prop (snd p) ''output'')) (own_property_order kvs))"
    using compile_tools_logged [OF loop] by (simp add: initial_state_def e)
  have "artifact s = artifact_text (compiled_text (compile e) (own_property_order kvs))
                       (registry_pairs (compile e) (own_property_order kvs))"
    using registry_closed [OF loop [unfolded e] assms(4)] by (rule artifact_closed)
  with fx lg show ?thesis by simp
qed

subsection \<open>The loop asks the compiler about the listed tools only\<close>

lemma compile_tools_cong:
  assumes "\<forall>p \<in> set entries. truthy (read_prop (snd p) ''output'') \<longrightarrow>
             c' (read_prop (snd p) ''output'') (fst p) = c (read_prop (snd p) ''output'') (fst p)"
  shows "compile_tools c' entries s = compile_tools c entries s"
  using assms
proof (induction entries arbitrary: s)
  case Nil
  then show ?case by simp
next
  case (Cons p entries)
  obtain n d where p: "p = (n, d)" by (cases p)
  from Cons.prems have same: "truthy (read_prop d ''output'') \<Longrightarrow>
      c' (read_prop d ''output'') n = c (read_prop d ''output'') n"
    by (simp add: p)
  from Cons.prems have rest: "\<And>s. compile_tools c' entries s = compile_tools c entries s"
    by (intro Cons.IH) simp
  show ?case
  proof (cases "get_prop d ''output''")
    case (Inl e)
    then show ?thesis by (simp add: p)
  next
    case (Inr out)
    hence out: "out = read_prop d ''output''" by (rule get_prop_Inr)
    show ?thesis
    proof (cases "truthy out")
      case True
      with same out have "c' out n = c out n" by simp
      with Inr True rest show ?thesis
        by (simp add: p Let_def split: sum.splits option.splits)
    next
      case False
      with Inr rest show ?thesis by (simp add: p)
    qed
  qed
qed

lemma written_generating:
  "written (map (\<lambda>p. Log (GeneratingTypesFor (fst p))) xs) = []"
  by (induction xs) (simp_all add: written_simps)

subsection \<open>The sample runs\<close>

lemmas sample_simps =
  generateTypes_def try_block_def env_of_def index_simps tool_def object_schema_def
  string_schema_def array_schema_def dangling_ref_schema_def sample_compile_def
  sample_compile_for_def initial_state_def assign_property_def Let_def
  newline_def is_word_char_def artifact_def mapping_lines_def banner_def
  OUTPUT_FILE_def outputDir_def

lemma run_weather_and_greeting:
  "generateTypes (env_of weather_and_greeting) =
     ([Log FetchingSchemas, Log (GeneratingTypesFor ''get_weather''),
       Log (GeneratingTypesFor ''greet''),
       WriteFileSync ''./src/types/tools.ts''
         (''/**\<newline>''
            @ '' * Auto-generated types from backend tool schemas\<newline>''
            @ '' * Do not edit manually - run \"npm run generate:types\" to update\<newline>''
            @ '' */\<newline>''
            @ ''\<newline>''
            @ ''export interface Weather {\<newline>''
            @ ''  [k: string]: unknown;\<newline>''
            @ ''}\<newline>''
            @ ''\<newline>''
            @ ''export type Greeting = string;\<newline>''
            @ ''\<newline>''
            @ ''\<newline>''
            @ ''// Tool output type mapping\<newline>''
            @ ''// Used in toolRenderers.tsx to ensure type safety\<newline>''
            @ ''export type ToolOutputTypes = {\<newline>''
            @ ''  get_weather: Weather;\<newline>''
            @ ''};\<newline>''),
       Log (TypesGenerated ''./src/types/tools.ts'')], 0)"
  by (simp add: sample_simps weather_and_greeting_def)


lemma run_b_then_1:
  "generateTypes (env_of b_then_1) =
     ([Log FetchingSchemas, Log (GeneratingTypesFor ''1''), Log (GeneratingTypesFor ''b''),
       WriteFileSync ''./src/types/tools.ts''
         (''/**\<newline>''
            @ '' * Auto-generated types from backend tool schemas\<newline>''
            @ '' * Do not edit manually - run \"npm run generate:types\" to update\<newline>''
            @ '' */\<newline>''
            @ ''\<newline>''
            @ ''export interface One {\<newline>''
            @ ''  [k: string]: unknown;\<newline>''
            @ ''}\<newline>''
            @ ''\<newline>''
            @ ''export interface B {\<newline>''
            @ ''  [k: string]: unknown;\<newline>''
            @ ''}\<newline>''
            @ ''\<newline>''
            @ ''\<newline>''
            @ ''// Tool output type mapping\<newline>''
            @ ''// Used in toolRenderers.tsx to ensure type safety\<newline>''
            @ ''export type ToolOutputTypes = {\<newline>''
            @ ''  1: One;\<newline>''
            @ ''  b: B;\<newline>''
            @ ''};\<newline>''),
       Log (TypesGenerated ''./src/types/tools.ts'')], 0)"
  by (simp add: sample_simps b_then_1_def)

lemma run_b_then_1_elsewhere:
  "generateTypes ((env_of b_then_1)\<lparr>compile := sample_compile_for [''1'', ''b''],
                                     existsSync_outputDir := False\<rparr>) =
     ([Log FetchingSchemas, MkdirSync ''./src/types'',
       Log (GeneratingTypesFor ''1''), Log (GeneratingTypesFor ''b''),
       WriteFileSync ''./src/types/tools.ts''
         (''/**\<newline>''
            @ '' * Auto-generated types from backend tool schemas\<newline>''
            @ '' * Do not edit manually - run \"npm run generate:types\" to update\<newline>''
            @ '' */\<newline>''
            @ ''\<newline>''
            @ ''export interface One {\<newline>''
            @ ''  [k: string]: unknown;\<newline>''
            @ ''}\<newline>''
            @ ''\<newline>''
            @ ''export interface B {\<newline>''
            @ ''  [k: string]: unknown;\<newline>''
            @ ''}\<newline>''
            @ ''\<newline>''
            @ ''\<newline>''
            @ ''// Tool output type mapping\<newline>''
            @ ''// Used in toolRenderers.tsx to ensure type safety\<newline>''
            @ ''export type ToolOutputTypes = {\<newline>''
            @ ''  1: One;\<newline>''
            @ ''  b: B;\<newline>''
            @ ''};\<newline>''),
       Log (TypesGenerated ''./src/types/tools.ts'')], 0)"
  by (simp add: sample_simps b_then_1_def)

lemma run_weather_and_dangling:
  "generateTypes (env_of weather_and_dangling) =
     ([Log FetchingSchemas, Log (GeneratingTypesFor ''get_weather''),
       Log (GeneratingTypesFor ''lookup''),
       Log (FailedToGenerate (Error ''Error resolving $ref pointer''))], 1)"
  by (simp add: sample_simps weather_and_dangling_def)

lemmas closed_simps =
  artifact_text_def compiled_text_def registry_pairs_def interface_pairs_def
  interface_name_def index_simps tool_def object_schema_def string_schema_def
  array_schema_def dangling_ref_schema_def sample_compile_def sample_compile_for_def
  is_word_char_def

lemma closed_weather_and_greeting:
  "artifact_text (compiled_text sample_compile (own_property_order weather_and_greeting))
     (registry_pairs sample_compile (own_property_order weather_and_greeting)) =
     (''/**\<newline>''
        @ '' * Auto-generated types from backend tool schemas\<newline>''
        @ '' * Do not edit manually - run \"npm run generate:types\" to update\<newline>''
        @ '' */\<newline>''
        @ ''\<newline>''
        @ ''export interface Weather {\<newline>''
        @ ''  [k: string]: unknown;\<newline>''
        @ ''}\<newline>''
        @ ''\<newline>''
        @ ''export type Greeting = string;\<newline>''
        @ ''\<newline>''
        @ ''\<newline>''
        @ ''// Tool output type mapping\<newline>''
        @ ''// Used in toolRenderers.tsx to ensure type safety\<newline>''
        @ ''export type ToolOutputTypes = {\<newline>''
        @ ''  get_weather: Weather;\<newline>''
        @ ''};\<newline>'')"
  by (simp add: closed_simps weather_and_greeting_def)

lemma closed_b_then_1:
  "artifact_text (compiled_text sample_compile (own_property_order b_then_1))
     (registry_pairs sample_compile (own_property_order b_then_1)) =
     (''/**\<newline>''
        @ '' * Auto-generated types from backend tool schemas\<newline>''
        @ '' * Do not edit manually - run \"npm run generate:types\" to update\<newline>''
        @ '' */\<newline>''
        @ ''\<newline>''
        @ ''export interface One {\<newline>''
        @ ''  [k: string]: unknown;\<newline>''
        @ ''}\<newline>''
        @ ''\<newline>''
        @ ''export interface B {\<newline>''
        @ ''  [k: string]: unknown;\<newline>''
        @ ''}\<newline>''
        @ ''\<newline>''
        @ ''\<newline>''
        @ ''// Tool output type mapping\<newline>''
        @ ''// Used in toolRenderers.tsx to ensure type safety\<newline>''
        @ ''export type ToolOutputTypes = {\<newline>''
        @ ''  1: One;\<newline>''
        @ ''  b: B;\<newline>''
        @ ''};\<newline>'')"
  by (simp add: closed_simps b_then_1_def)

lemma order_b_then_1:
  "own_property_order b_then_1
     = [(''1'', tool (object_schema ''One'')), (''b'', tool (object_schema ''B''))]"
  by (simp add: b_then_1_def index_simps)

section \<open>The claims about the extractor and the dispatch table\<close>

text \<open>
  C6. A part that is not an object (a primitive, a function, \<^verbatim>\<open>undefined\<close> or
  \<^verbatim>\<open>null\<close>), or whose \<^verbatim>\<open>type\<close> is not a string, or whose \<^verbatim>\<open>type\<close> is a string that
  does not start with \<^verbatim>\<open>tool-\<close>, makes \<^verbatim>\<open>renderToolPart\<close> return \<^verbatim>\<open>null\<close>: it logs
  nothing and does not throw.
\<close>

theorem renderToolPart_not_a_tool_part:
  assumes "typeof part \<noteq> ''object'' \<or> part = JNull
             \<or> typeof (read_prop part ''type'') \<noteq> ''string''
             \<or> (\<exists>t. read_prop part ''type'' = JStr t \<and> \<not> startsWith t ''tool-'')"
  shows "renderToolPart builtin part = ([], Inr None)"
  using assms
  by (cases "read_prop part ''type''") (auto simp: renderToolPart_def Let_def)

text \<open>Scenario D: the text part \<^verbatim>\<open>{ type: "text", text: "hello" }\<close>.\<close>

theorem renderToolPart_not_a_tool_part_witness:
  "\<forall>builtin. renderToolPart builtin (JObj [(''type'', JStr ''text''), (''text'', JStr ''hello'')])
     = ([], Inr None)"
proof
  fix builtin
  let ?part = "JObj [(''type'', JStr ''text''), (''text'', JStr ''hello'')]"
  have "typeof ?part \<noteq> ''object'' \<or> ?part = JNull
          \<or> typeof (read_prop ?part ''type'') \<noteq> ''string''
          \<or> (\<exists>t. read_prop ?part ''type'' = JStr t \<and> \<not> startsWith t ''tool-'')"
    by (simp add: startsWith_def)
  thus "renderToolPart builtin ?part = ([], Inr None)"
    by (rule renderToolPart_not_a_tool_part)
qed

text \<open>
  C7. For a part object whose \<^verbatim>\<open>type\<close> is \<^verbatim>\<open>tool-\<close> followed by a name that the
  dispatch table answers for, an \<^verbatim>\<open>output\<close> that is missing, \<^verbatim>\<open>null\<close> or not an object
  makes \<^verbatim>\<open>renderToolPart\<close> log the invalid-output warning and return \<^verbatim>\<open>null\<close>; no
  renderer is called and nothing is thrown.
\<close>

theorem renderToolPart_invalid_output:
  assumes "typeof part = ''object''" and "part \<noteq> JNull"
    and "read_prop part ''type'' = JStr (''tool-'' @ toolName)"
    and "hasToolRenderer toolName"
    and "typeof (read_prop part ''output'') \<noteq> ''object'' \<or> read_prop part ''output'' = JNull"
  shows "renderToolPart builtin part = ([invalid_output_warning toolName], Inr None)"
  using assms
  by (auto simp: renderToolPart_def Let_def startsWith_def)

text \<open>Scenario E: \<^verbatim>\<open>{ type: "tool-get_weather", output: "not an object" }\<close>.\<close>

theorem renderToolPart_invalid_output_witness:
  "\<forall>builtin. renderToolPart builtin
       (JObj [(''type'', JStr ''tool-get_weather''), (''output'', JStr ''not an object'')])
     = ([''Invalid output for tool: get_weather''], Inr None)"
proof
  fix builtin
  let ?part = "JObj [(''type'', JStr ''tool-get_weather''), (''output'', JStr ''not an object'')]"
  have "typeof ?part = ''object''" "?part \<noteq> JNull"
    "read_prop ?part ''type'' = JStr (''tool-'' @ ''get_weather'')"
    "hasToolRenderer ''get_weather''"
    "typeof (read_prop ?part ''output'') \<noteq> ''object'' \<or> read_prop ?part ''output'' = JNull"
    by (simp_all add: hasToolRenderer_def toolRenderers_def)
  from renderToolPart_invalid_output [OF this, of builtin]
  show "renderToolPart builtin ?part = ([''Invalid output for tool: get_weather''], Inr None)"
    by (simp add: invalid_output_warning_def)
qed

text \<open>
  C8, at the failing input \<^verbatim>\<open>{ type: "tool-__proto__", output: {} }\<close>. The name
  \<^verbatim>\<open>__proto__\<close> is not a key of the dispatch table, yet \<^verbatim>\<open>hasToolRenderer\<close> answers
  true for it, no warning is logged, and the call of the inherited member throws. For
  \<^verbatim>\<open>{ type: "tool-constructor", output: {} }\<close> the inherited function is called and its
  result is wrapped and returned; again no warning is logged.
\<close>

theorem renderToolPart_inherited_name_throws:
  "''__proto__'' \<notin> set (map fst toolRenderers)
   \<and> renderToolPart builtin (JObj [(''type'', JStr ''tool-__proto__''), (''output'', JObj [])])
       = ([], Inl TypeError)
   \<and> ''constructor'' \<notin> set (map fst toolRenderers)
   \<and> renderToolPart builtin (JObj [(''type'', JStr ''tool-constructor''), (''output'', JObj [])])
       = (case builtin ''constructor'' (JObj []) of
            Inl e \<Rightarrow> ([], Inl e)
          | Inr v \<Rightarrow> ([], Inr (Some (ToolResultWrapper ''constructor'' (JObj []) (JsValue v)))))"
  by (simp add: renderToolPart_def startsWith_def hasToolRenderer_def Object_prototype_names_def
      toolRenderers_def callToolRenderer_def split: sum.splits)

text \<open>The same part, whatever the runtime's inherited functions do.\<close>

theorem renderToolPart_inherited_name_throws_witness:
  "\<forall>builtin. renderToolPart builtin
       (JObj [(''type'', JStr ''tool-__proto__''), (''output'', JObj [])]) = ([], Inl TypeError)"
proof
  fix builtin
  from renderToolPart_inherited_name_throws [of builtin]
  show "renderToolPart builtin
          (JObj [(''type'', JStr ''tool-__proto__''), (''output'', JObj [])]) = ([], Inl TypeError)"
    by blast
qed

text \<open>
  C9. For a part object whose \<^verbatim>\<open>type\<close> is \<^verbatim>\<open>tool-\<close> followed by a name and whose
  \<^verbatim>\<open>output\<close> is a non-null object, the dispatch table is consulted under exactly that
  name and, when it answers, called with exactly that output; the wrapper element
  carries the same name and output. For a key of the table the result is the wrapper
  around that key's element.
\<close>

theorem renderToolPart_dispatch:
  assumes "typeof part = ''object''" and "part \<noteq> JNull"
    and "read_prop part ''type'' = JStr (''tool-'' @ toolName)"
    and "read_prop part ''output'' = output"
    and "typeof output = ''object''" and "output \<noteq> JNull"
  shows "renderToolPart builtin part =
           (if hasToolRenderer toolName then
              (case callToolRenderer builtin toolName output of
                 Inl e \<Rightarrow> ([], Inl e)
               | Inr rendered \<Rightarrow> ([], Inr (Some (ToolResultWrapper toolName output rendered))))
            else ([no_renderer_warning toolName], Inr None))
         \<and> (\<forall>c. map_of toolRenderers toolName = Some c \<longrightarrow>
               renderToolPart builtin part =
                 ([], Inr (Some (ToolResultWrapper toolName output (Element c output)))))"
proof -
  have main: "renderToolPart builtin part =
           (if hasToolRenderer toolName then
              (case callToolRenderer builtin toolName output of
                 Inl e \<Rightarrow> ([], Inl e)
               | Inr rendered \<Rightarrow> ([], Inr (Some (ToolResultWrapper toolName output rendered))))
            else ([no_renderer_warning toolName], Inr None))"
    using assms by (auto simp: renderToolPart_def Let_def startsWith_def)
  have "renderToolPart builtin part =
          ([], Inr (Some (ToolResultWrapper toolName output (Element c output))))"
    if c: "map_of toolRenderers toolName = Some c" for c
  proof -
    have "hasToolRenderer toolName" using c by (rule hasToolRenderer_own_key)
    moreover have "callToolRenderer builtin toolName output = Inr (Element c output)"
      using c by (simp add: callToolRenderer_def)
    ultimately show ?thesis using main by simp
  qed
  with main show ?thesis by blast
qed

text \<open>
  Scenario B: \<^verbatim>\<open>{ type: "tool-get_weather", output: { city: "Tokyo", temperature: 18 } }\<close>.
\<close>

theorem renderToolPart_dispatch_witness:
  "\<forall>builtin. renderToolPart builtin (JObj [(''type'', JStr ''tool-get_weather''), (''output'', tokyo)])
     = ([], Inr (Some (ToolResultWrapper ''get_weather'' tokyo
                        (Element WeatherResult_component tokyo))))"
proof
  fix builtin
  let ?part = "JObj [(''type'', JStr ''tool-get_weather''), (''output'', tokyo)]"
  have "typeof ?part = ''object''" "?part \<noteq> JNull"
    "read_prop ?part ''type'' = JStr (''tool-'' @ ''get_weather'')"
    "read_prop ?part ''output'' = tokyo" "typeof tokyo = ''object''" "tokyo \<noteq> JNull"
    by (simp_all add: tokyo_def)
  from renderToolPart_dispatch [OF this, of builtin]
  have "\<forall>c. map_of toolRenderers ''get_weather'' = Some c \<longrightarrow>
          renderToolPart builtin ?part =
            ([], Inr (Some (ToolResultWrapper ''get_weather'' tokyo (Element c tokyo))))"
    by (rule conjunct2)
  thus "renderToolPart builtin ?part =
          ([], Inr (Some (ToolResultWrapper ''get_weather'' tokyo
                           (Element WeatherResult_component tokyo))))"
    by (simp add: toolRenderers_def)
qed

text \<open>
  C2, at the failing input \<^verbatim>\<open>get_weather\<close>: the dispatch table has a renderer under
  this name and the generated \<^verbatim>\<open>ToolOutputTypes\<close> has no type under it.
\<close>

theorem toolRenderers_key_without_type:
  "''get_weather'' \<in> set (map fst toolRenderers)
   \<and> ''get_weather'' \<notin> set (map fst ToolOutputTypes)"
  by (simp add: toolRenderers_def ToolOutputTypes_def)

section \<open>The claim about the type guard helper\<close>

text \<open>
  C10. For a part object whose \<^verbatim>\<open>type\<close> equals \<^verbatim>\<open>tool-\<close> followed by the tool name,
  \<^verbatim>\<open>getToolOutput\<close> returns the \<^verbatim>\<open>output\<close> field whenever it is truthy, whether or not
  it is an object (a non-empty string and a non-zero number are returned as they are),
  and returns \<^verbatim>\<open>null\<close> when it is falsy: missing, \<^verbatim>\<open>null\<close>, zero, the empty string
  or \<^verbatim>\<open>false\<close>.
\<close>

theorem getToolOutput_truthiness:
  assumes "typeof part = ''object''" and "part \<noteq> JNull"
    and "read_prop part ''type'' = JStr (''tool-'' @ toolName)"
  shows "getToolOutput part toolName =
           (if truthy (read_prop part ''output'') then read_prop part ''output'' else JNull)
         \<and> (\<forall>s. s \<noteq> [] \<longrightarrow> read_prop part ''output'' = JStr s \<longrightarrow>
               getToolOutput part toolName = JStr s)
         \<and> (\<forall>q. q \<noteq> 0 \<longrightarrow> read_prop part ''output'' = JNum (Finite q) \<longrightarrow>
               getToolOutput part toolName = JNum (Finite q))
         \<and> (read_prop part ''output'' \<in> {JUndefined, JNull, JNum (Finite 0), JStr [], JBool False} \<longrightarrow>
               getToolOutput part toolName = JNull)"
  using assms by (auto simp: getToolOutput_def)

text \<open>
  A weather part whose output is a string, one whose output is the number 5, one whose
  output is zero and one without output.
\<close>

theorem getToolOutput_truthiness_witness:
  "getToolOutput (JObj [(''type'', JStr ''tool-get_weather''), (''output'', JStr ''sunny'')])
     ''get_weather'' = JStr ''sunny''
   \<and> getToolOutput (JObj [(''type'', JStr ''tool-get_weather''), (''output'', JNum (Finite 5))])
       ''get_weather'' = JNum (Finite 5)
   \<and> getToolOutput (JObj [(''type'', JStr ''tool-get_weather''), (''output'', JNum (Finite 0))])
       ''get_weather'' = JNull
   \<and> getToolOutput (JObj [(''type'', JStr ''tool-get_weather'')]) ''get_weather'' = JNull"
proof -
  let ?p1 = "JObj [(''type'', JStr ''tool-get_weather''), (''output'', JStr ''sunny'')]"
  let ?p2 = "JObj [(''type'', JStr ''tool-get_weather''), (''output'', JNum (Finite 5))]"
  let ?p3 = "JObj [(''type'', JStr ''tool-get_weather''), (''output'', JNum (Finite 0))]"
  let ?p4 = "JObj [(''type'', JStr ''tool-get_weather'')]"
  have p1: "typeof ?p1 = ''object''" "?p1 \<noteq> JNull"
    "read_prop ?p1 ''type'' = JStr (''tool-'' @ ''get_weather'')" by simp_all
  have p2: "typeof ?p2 = ''object''" "?p2 \<noteq> JNull"
    "read_prop ?p2 ''type'' = JStr (''tool-'' @ ''get_weather'')" by simp_all
  have p3: "typeof ?p3 = ''object''" "?p3 \<noteq> JNull"
    "read_prop ?p3 ''type'' = JStr (''tool-'' @ ''get_weather'')" by simp_all
  have p4: "typeof ?p4 = ''object''" "?p4 \<noteq> JNull"
    "read_prop ?p4 ''type'' = JStr (''tool-'' @ ''get_weather'')" by simp_all
  from getToolOutput_truthiness [OF p1] getToolOutput_truthiness [OF p2]
    getToolOutput_truthiness [OF p3] getToolOutput_truthiness [OF p4]
  show ?thesis by simp
qed

section \<open>The claim about the renderers' fallbacks\<close>

text \<open>
  C5, at the failing input: an \<^verbatim>\<open>execute_sql\<close> output with every required field of its
  generated type, \<^verbatim>\<open>success\<close> true, one row, and the optional \<^verbatim>\<open>column_names\<close> absent.
  The component reads \<^verbatim>\<open>data.column_names.map\<close> and throws.
\<close>

theorem SQLQueryResult_throws_without_column_names:
  "SQLQueryResult sql_without_column_names = Inl TypeError"
  by (simp add: SQLQueryResult_def sql_without_column_names_def results_table_def)

text \<open>The fallbacks the components do have: the error panels for a falsy \<^verbatim>\<open>success\<close>.\<close>

lemma SQLQueryResult_error_panel:
  assumes "data \<noteq> JUndefined" and "data \<noteq> JNull" and "\<not> truthy (read_prop data ''success'')"
  shows "SQLQueryResult data =
           Inr (Tag ''div'' [ClassName ''tool-result sql-error'']
                  [Tag ''div'' [ClassName ''tool-result-header'']
                     [Glyph CrossMark, Text '' SQL Query Error''],
                   Tag ''div'' [ClassName ''tool-result-content'']
                     [Tag ''div'' [ClassName ''query-display'']
                        [Tag ''code'' [] [Expr (read_prop data ''query'')]],
                      Tag ''p'' [ClassName ''error-message'']
                        [Expr (read_prop data ''error'')]]])"
  using assms by (simp add: SQLQueryResult_def)

lemma ChartResult_error_panel:
  assumes "data \<noteq> JUndefined" and "data \<noteq> JNull" and "\<not> truthy (read_prop data ''success'')"
  shows "ChartResult renderChart data =
           Inr (Tag ''div'' [ClassName ''tool-result chart-error'']
                  [Tag ''div'' [ClassName ''tool-result-header'']
                     [Glyph CrossMark, Text '' Chart Rendering Error''],
                   Tag ''div'' [ClassName ''tool-result-content'']
                     [Tag ''p'' [ClassName ''error-message'']
                        [Expr (read_prop data ''error'')]]])"
  using assms by (simp add: ChartResult_def)

section \<open>The claims about the generation run\<close>

text \<open>
  C4. A fetch that rejects, a response that is not ok and a tool whose output schema
  does not compile each end the run with exit status 1 and without any call of
  \<^verbatim>\<open>fs.writeFileSync\<close>, so the output file is neither written nor modified. A run that
  exits with status 0 has called \<^verbatim>\<open>fs.writeFileSync\<close> once, on the output file, as its
  last call before the closing message; for a tools object the calls of the run are
  exactly the opening message, the directory creation if the directory was missing, one
  message per compiled tool, the one write, and the closing message, and the content
  written is the complete file: the banner, the text compiled for every tool with a
  truthy \<^verbatim>\<open>output\<close>, and the mapping block with the line of every registered tool. The
  exit status is 0 or 1, and a run that exits with 1 has written nothing unless the
  write itself is what failed.
\<close>

theorem generateTypes_all_or_nothing:
  "(\<forall>err. fetch_result e = FetchRejected err \<longrightarrow>
      generateTypes e = ([Log FetchingSchemas, Log (FailedToGenerate err)], 1))
   \<and> (\<forall>st body. fetch_result e = Response False st body \<longrightarrow>
         generateTypes e =
           ([Log FetchingSchemas,
             Log (FailedToGenerate (Error (''Failed to fetch schemas: '' @ st)))], 1))
   \<and> (\<forall>st data t entries n d err.
         fetch_result e = Response True st (Inr data) \<and> get_prop data ''tools'' = Inr t
         \<and> Object_entries (if truthy t then t else JObj []) = Inr entries
         \<and> (n, d) \<in> set entries \<and> truthy (read_prop d ''output'')
         \<and> compile e (read_prop d ''output'') n = Inl err \<longrightarrow>
         snd (generateTypes e) = 1 \<and> written (fst (generateTypes e)) = [])
   \<and> (snd (generateTypes e) = 0 \<longrightarrow>
         (\<exists>st data t entries s fx.
            fetch_result e = Response True st (Inr data) \<and> get_prop data ''tools'' = Inr t
            \<and> Object_entries (if truthy t then t else JObj []) = Inr entries
            \<and> compile_tools (compile e) entries initial_state = (s, None)
            \<and> fst (generateTypes e) =
                fx @ [WriteFileSync OUTPUT_FILE (artifact s), Log (TypesGenerated OUTPUT_FILE)]
            \<and> written fx = []))
   \<and> (\<forall>st data t kvs.
         fetch_result e = Response True st (Inr data) \<and> get_prop data ''tools'' = Inr t
         \<and> (if truthy t then t else JObj []) = JObj kvs \<and> distinct (map fst kvs)
         \<and> snd (generateTypes e) = 0 \<longrightarrow>
         fst (generateTypes e) =
           [Log FetchingSchemas]
           @ (if existsSync_outputDir e then [] else [MkdirSync outputDir])
           @ map (\<lambda>p. Log (GeneratingTypesFor (fst p)))
               (filter (\<lambda>p. truthy (read_prop (snd p) ''output'')) (own_property_order kvs))
           @ [WriteFileSync OUTPUT_FILE
                (artifact_text (compiled_text (compile e) (own_property_order kvs))
                   (registry_pairs (compile e) (own_property_order kvs))),
              Log (TypesGenerated OUTPUT_FILE)])
   \<and> (snd (generateTypes e) \<noteq> 0 \<longrightarrow>
         snd (generateTypes e) = 1
         \<and> (writeFileSync_error e = None \<longrightarrow> written (fst (generateTypes e)) = []))"
proof (intro conjI allI impI)
  fix err
  assume "fetch_result e = FetchRejected err"
  thus "generateTypes e = ([Log FetchingSchemas, Log (FailedToGenerate err)], 1)"
    by (simp add: generateTypes_def try_block_rejected)
next
  fix st body
  assume "fetch_result e = Response False st body"
  thus "generateTypes e =
          ([Log FetchingSchemas,
            Log (FailedToGenerate (Error (''Failed to fetch schemas: '' @ st)))], 1)"
    by (simp add: generateTypes_def try_block_not_ok)
next
  fix st data t entries n d err
  assume a: "fetch_result e = Response True st (Inr data) \<and> get_prop data ''tools'' = Inr t
         \<and> Object_entries (if truthy t then t else JObj []) = Inr entries
         \<and> (n, d) \<in> set entries \<and> truthy (read_prop d ''output'')
         \<and> compile e (read_prop d ''output'') n = Inl err"
  hence "snd (generateTypes e) = 1 \<and> written (fst (generateTypes e)) = []"
    by (intro loop_throw_aborts [of e st data t entries n d err]) simp_all
  thus "snd (generateTypes e) = 1" and "written (fst (generateTypes e)) = []" by simp_all
next
  assume "snd (generateTypes e) = 0"
  from generateTypes_success [OF this] obtain st data t entries s where
    resp: "fetch_result e = Response True st (Inr data)" "get_prop data ''tools'' = Inr t"
      "Object_entries (if truthy t then t else JObj []) = Inr entries"
    and loop: "compile_tools (compile e) entries initial_state = (s, None)"
    and fx: "fst (generateTypes e) = [Log FetchingSchemas]
                  @ (if existsSync_outputDir e then [] else [MkdirSync outputDir])
                  @ logged s
                  @ [WriteFileSync OUTPUT_FILE (artifact s), Log (TypesGenerated OUTPUT_FILE)]"
    by blast
  let ?fx = "[Log FetchingSchemas]
               @ (if existsSync_outputDir e then [] else [MkdirSync outputDir]) @ logged s"
  have "written ?fx = []"
    using written_logged_loop [OF loop] by (simp add: written_append written_simps)
  moreover have "fst (generateTypes e) =
      ?fx @ [WriteFileSync OUTPUT_FILE (artifact s), Log (TypesGenerated OUTPUT_FILE)]"
    using fx by simp
  ultimately
  show "\<exists>st data t entries s fx.
            fetch_result e = Response True st (Inr data) \<and> get_prop data ''tools'' = Inr t
            \<and> Object_entries (if truthy t then t else JObj []) = Inr entries
            \<and> compile_tools (compile e) entries initial_state = (s, None)
            \<and> fst (generateTypes e) =
                fx @ [WriteFileSync OUTPUT_FILE (artifact s), Log (TypesGenerated OUTPUT_FILE)]
            \<and> written fx = []"
    using resp loop by blast
next
  fix st data t kvs
  assume a: "fetch_result e = Response True st (Inr data) \<and> get_prop data ''tools'' = Inr t
         \<and> (if truthy t then t else JObj []) = JObj kvs \<and> distinct (map fst kvs)
         \<and> snd (generateTypes e) = 0"
  show "fst (generateTypes e) =
           [Log FetchingSchemas]
           @ (if existsSync_outputDir e then [] else [MkdirSync outputDir])
           @ map (\<lambda>p. Log (GeneratingTypesFor (fst p)))
               (filter (\<lambda>p. truthy (read_prop (snd p) ''output'')) (own_property_order kvs))
           @ [WriteFileSync OUTPUT_FILE
                (artifact_text (compiled_text (compile e) (own_property_order kvs))
                   (registry_pairs (compile e) (own_property_order kvs))),
              Log (TypesGenerated OUTPUT_FILE)]"
    using a by (intro generateTypes_closed_form [of e st data t kvs]) simp_all
next
  assume "snd (generateTypes e) \<noteq> 0"
  thus "snd (generateTypes e) = 1" using generateTypes_exit_code [of e] by simp
next
  assume ne: "snd (generateTypes e) \<noteq> 0" and w: "writeFileSync_error e = None"
  from ne obtain fx err where "try_block e = (fx, Some err)"
    by (cases "try_block e") (auto simp: generateTypes_exit_0)
  from try_block_error_no_write [OF this w] this
  show "written (fst (generateTypes e)) = []" by (simp add: written_generateTypes)
qed

text \<open>
  The four sample runs: a rejected fetch, a 404, a reference that does not resolve
  after a schema that compiles, and a run that succeeds, with every call it makes and
  every byte it writes.
\<close>

theorem generateTypes_all_or_nothing_witness:
  "generateTypes env_rejected =
     ([Log FetchingSchemas, Log (FailedToGenerate (Error ''fetch failed''))], 1)
   \<and> generateTypes env_not_found =
       ([Log FetchingSchemas,
         Log (FailedToGenerate (Error ''Failed to fetch schemas: Not Found''))], 1)
   \<and> snd (generateTypes (env_of weather_and_dangling)) = 1
   \<and> written (fst (generateTypes (env_of weather_and_dangling))) = []
   \<and> snd (generateTypes (env_of weather_and_greeting)) = 0
   \<and> fst (generateTypes (env_of weather_and_greeting)) =
       [Log FetchingSchemas, Log (GeneratingTypesFor ''get_weather''),
        Log (GeneratingTypesFor ''greet''),
        WriteFileSync ''./src/types/tools.ts''
          (''/**\<newline>''
             @ '' * Auto-generated types from backend tool schemas\<newline>''
             @ '' * Do not edit manually - run \"npm run generate:types\" to update\<newline>''
             @ '' */\<newline>''
             @ ''\<newline>''
             @ ''export interface Weather {\<newline>''
             @ ''  [k: string]: unknown;\<newline>''
             @ ''}\<newline>''
             @ ''\<newline>''
             @ ''export type Greeting = string;\<newline>''
             @ ''\<newline>''
             @ ''\<newline>''
             @ ''// Tool output type mapping\<newline>''
             @ ''// Used in toolRenderers.tsx to ensure type safety\<newline>''
             @ ''export type ToolOutputTypes = {\<newline>''
             @ ''  get_weather: Weather;\<newline>''
             @ ''};\<newline>''),
        Log (TypesGenerated ''./src/types/tools.ts'')]"
proof -
  have 1: "fetch_result env_rejected = FetchRejected (Error ''fetch failed'')"
    by (simp add: env_rejected_def)
  have 2: "fetch_result env_not_found = Response False ''Not Found'' (Inl (Error ''not read''))"
    by (simp add: env_not_found_def)
  let ?data = "JObj [(''tools'', JObj weather_and_dangling)]"
  let ?lookup = "tool dangling_ref_schema"
  have 3: "fetch_result (env_of weather_and_dangling) = Response True ''OK'' (Inr ?data)
         \<and> get_prop ?data ''tools'' = Inr (JObj weather_and_dangling)
         \<and> Object_entries (if truthy (JObj weather_and_dangling) then JObj weather_and_dangling
                             else JObj []) = Inr weather_and_dangling
         \<and> (''lookup'', ?lookup) \<in> set weather_and_dangling
         \<and> truthy (read_prop ?lookup ''output'')
         \<and> compile (env_of weather_and_dangling) (read_prop ?lookup ''output'') ''lookup''
             = Inl (Error ''Error resolving $ref pointer'')"
    by (simp add: env_of_def weather_and_dangling_def index_simps tool_def sample_compile_def
        dangling_ref_schema_def)
  have 4: "snd (generateTypes (env_of weather_and_greeting)) = 0"
    by (simp add: run_weather_and_greeting)
  let ?wdata = "JObj [(''tools'', JObj weather_and_greeting)]"
  have 5: "fetch_result (env_of weather_and_greeting) = Response True ''OK'' (Inr ?wdata)
         \<and> get_prop ?wdata ''tools'' = Inr (JObj weather_and_greeting)
         \<and> (if truthy (JObj weather_and_greeting) then JObj weather_and_greeting else JObj [])
             = JObj weather_and_greeting
         \<and> distinct (map fst weather_and_greeting)
         \<and> snd (generateTypes (env_of weather_and_greeting)) = 0"
    using 4 by (simp add: env_of_def weather_and_greeting_def)
  have c: "compile (env_of weather_and_greeting) = sample_compile"
    "existsSync_outputDir (env_of weather_and_greeting)"
    by (simp_all add: env_of_def)
  have logs: "map (\<lambda>p. Log (GeneratingTypesFor (fst p)))
                (filter (\<lambda>p. truthy (read_prop (snd p) ''output''))
                   (own_property_order weather_and_greeting))
              = [Log (GeneratingTypesFor ''get_weather''), Log (GeneratingTypesFor ''greet'')]"
    by (simp add: weather_and_greeting_def index_simps tool_def object_schema_def
        string_schema_def)
  note t1 = generateTypes_all_or_nothing [of env_rejected, THEN conjunct1, rule_format, OF 1]
  note t2 = generateTypes_all_or_nothing [of env_not_found, THEN conjunct2, THEN conjunct1,
      rule_format, OF 2]
  note t3 = generateTypes_all_or_nothing [of "env_of weather_and_dangling", THEN conjunct2,
      THEN conjunct2, THEN conjunct1, rule_format, OF 3]
  note t5 = generateTypes_all_or_nothing [of "env_of weather_and_greeting", THEN conjunct2,
      THEN conjunct2, THEN conjunct2, THEN conjunct2, THEN conjunct1, rule_format, OF 5]
  from t5 have t5': "fst (generateTypes (env_of weather_and_greeting)) =
       [Log FetchingSchemas, Log (GeneratingTypesFor ''get_weather''),
        Log (GeneratingTypesFor ''greet''),
        WriteFileSync ''./src/types/tools.ts''
          (''/**\<newline>''
             @ '' * Auto-generated types from backend tool schemas\<newline>''
             @ '' * Do not edit manually - run \"npm run generate:types\" to update\<newline>''
             @ '' */\<newline>''
             @ ''\<newline>''
             @ ''export interface Weather {\<newline>''
             @ ''  [k: string]: unknown;\<newline>''
             @ ''}\<newline>''
             @ ''\<newline>''
             @ ''export type Greeting = string;\<newline>''
             @ ''\<newline>''
             @ ''\<newline>''
             @ ''// Tool output type mapping\<newline>''
             @ ''// Used in toolRenderers.tsx to ensure type safety\<newline>''
             @ ''export type ToolOutputTypes = {\<newline>''
             @ ''  get_weather: Weather;\<newline>''
             @ ''};\<newline>''),
        Log (TypesGenerated ''./src/types/tools.ts'')]"
    unfolding c(1) logs closed_weather_and_greeting by (simp add: OUTPUT_FILE_def c(2))
  from t1 t2 t3 t5' 4 show ?thesis by simp
qed




text \<open>
  C3, as stated, fails in its order: the sample response declares the tool \<^verbatim>\<open>b\<close> before
  the tool \<^verbatim>\<open>1\<close>, and the run compiles \<^verbatim>\<open>1\<close> before \<^verbatim>\<open>b\<close> and writes their
  definitions and their mapping lines in that order.
\<close>

theorem iteration_order_counterexample:
  "map fst b_then_1 = [''b'', ''1'']
   \<and> generateTypes (env_of b_then_1) =
       ([Log FetchingSchemas, Log (GeneratingTypesFor ''1''), Log (GeneratingTypesFor ''b''),
         WriteFileSync ''./src/types/tools.ts''
           (''/**\<newline>''
              @ '' * Auto-generated types from backend tool schemas\<newline>''
              @ '' * Do not edit manually - run \"npm run generate:types\" to update\<newline>''
              @ '' */\<newline>''
              @ ''\<newline>''
              @ ''export interface One {\<newline>''
              @ ''  [k: string]: unknown;\<newline>''
              @ ''}\<newline>''
              @ ''\<newline>''
              @ ''export interface B {\<newline>''
              @ ''  [k: string]: unknown;\<newline>''
              @ ''}\<newline>''
              @ ''\<newline>''
              @ ''\<newline>''
              @ ''// Tool output type mapping\<newline>''
              @ ''// Used in toolRenderers.tsx to ensure type safety\<newline>''
              @ ''export type ToolOutputTypes = {\<newline>''
              @ ''  1: One;\<newline>''
              @ ''  b: B;\<newline>''
              @ ''};\<newline>''),
         Log (TypesGenerated ''./src/types/tools.ts'')], 0)"
  by (simp add: run_b_then_1) (simp add: b_then_1_def)

text \<open>
  C3, amended. Two successful runs that got the same fetch result write byte-identical
  files, whatever the state of the output directory, as soon as their compilers agree
  on the schemas and names of the response's tools with a truthy \<^verbatim>\<open>output\<close>: the run
  asks the compiler about nothing else. For a response whose tools value is an object,
  the tools are compiled in the order of \<^verbatim>\<open>Object.entries\<close> (names that are array
  indices first, in ascending numeric order, then the other names in insertion order),
  and the file written holds the compiled texts and the mapping lines in that same
  order; it is the insertion order when no tool name is an array index.
\<close>

theorem generateTypes_deterministic:
  "(\<forall>e' st data t entries.
      fetch_result e = Response True st (Inr data) \<and> get_prop data ''tools'' = Inr t
      \<and> Object_entries (if truthy t then t else JObj []) = Inr entries
      \<and> fetch_result e' = fetch_result e
      \<and> (\<forall>p \<in> set entries. truthy (read_prop (snd p) ''output'') \<longrightarrow>
            compile e' (read_prop (snd p) ''output'') (fst p)
              = compile e (read_prop (snd p) ''output'') (fst p))
      \<and> snd (generateTypes e) = 0 \<and> snd (generateTypes e') = 0 \<longrightarrow>
      written (fst (generateTypes e')) = written (fst (generateTypes e)))
   \<and> (\<forall>st data kvs.
         fetch_result e = Response True st (Inr data) \<and> read_prop data ''tools'' = JObj kvs
         \<and> distinct (map fst kvs) \<and> snd (generateTypes e) = 0 \<longrightarrow>
         compiled (fst (generateTypes e)) =
           map fst (filter (\<lambda>p. truthy (read_prop (snd p) ''output'')) (own_property_order kvs))
         \<and> written (fst (generateTypes e)) =
             [artifact_text (compiled_text (compile e) (own_property_order kvs))
                (registry_pairs (compile e) (own_property_order kvs))]
         \<and> (list_all (\<lambda>kv. \<not> is_array_index (fst kv)) kvs \<longrightarrow> own_property_order kvs = kvs))"
proof (intro conjI allI impI)
  fix e' st data t entries
  assume a: "fetch_result e = Response True st (Inr data) \<and> get_prop data ''tools'' = Inr t
      \<and> Object_entries (if truthy t then t else JObj []) = Inr entries
      \<and> fetch_result e' = fetch_result e
      \<and> (\<forall>p \<in> set entries. truthy (read_prop (snd p) ''output'') \<longrightarrow>
            compile e' (read_prop (snd p) ''output'') (fst p)
              = compile e (read_prop (snd p) ''output'') (fst p))
      \<and> snd (generateTypes e) = 0 \<and> snd (generateTypes e') = 0"
  from a generateTypes_success [of e] obtain s where
    loop: "compile_tools (compile e) entries initial_state = (s, None)"
    and fx: "fst (generateTypes e) = [Log FetchingSchemas]
                  @ (if existsSync_outputDir e then [] else [MkdirSync outputDir])
                  @ logged s
                  @ [WriteFileSync OUTPUT_FILE (artifact s), Log (TypesGenerated OUTPUT_FILE)]"
    by auto
  from a generateTypes_success [of e'] obtain s' where
    loop': "compile_tools (compile e') entries initial_state = (s', None)"
    and fx': "fst (generateTypes e') = [Log FetchingSchemas]
                  @ (if existsSync_outputDir e' then [] else [MkdirSync outputDir])
                  @ logged s'
                  @ [WriteFileSync OUTPUT_FILE (artifact s'), Log (TypesGenerated OUTPUT_FILE)]"
    by auto
  from a have "compile_tools (compile e') entries initial_state
                 = compile_tools (compile e) entries initial_state"
    by (intro compile_tools_cong) simp
  with loop loop' have "s' = s" by simp
  with generateTypes_written [OF fx loop] generateTypes_written [OF fx' loop']
  show "written (fst (generateTypes e')) = written (fst (generateTypes e))" by simp
next
  fix st data kvs
  assume a: "fetch_result e = Response True st (Inr data) \<and> read_prop data ''tools'' = JObj kvs
         \<and> distinct (map fst kvs) \<and> snd (generateTypes e) = 0"
  hence data: "get_prop data ''tools'' = Inr (JObj kvs)" by (cases data) simp_all
  have tools: "(if truthy (JObj kvs) then JObj kvs else JObj []) = JObj kvs" by simp
  from a have r: "fetch_result e = Response True st (Inr data)" "distinct (map fst kvs)"
    "snd (generateTypes e) = 0" by simp_all
  note closed = generateTypes_closed_form [OF r(1) data tools r(2,3)]
  show "compiled (fst (generateTypes e)) =
          map fst (filter (\<lambda>p. truthy (read_prop (snd p) ''output'')) (own_property_order kvs))"
    unfolding closed by (simp add: compiled_append compiled_simps compiled_generating)
  show "written (fst (generateTypes e)) =
          [artifact_text (compiled_text (compile e) (own_property_order kvs))
             (registry_pairs (compile e) (own_property_order kvs))]"
    unfolding closed by (simp add: written_append written_simps written_generating)
next
  fix kvs :: "(string \<times> jsval) list"
  assume "list_all (\<lambda>kv. \<not> is_array_index (fst kv)) kvs"
  thus "own_property_order kvs = kvs" by (rule own_property_order_no_index)
qed

text \<open>
  The response that declares \<^verbatim>\<open>b\<close> before \<^verbatim>\<open>1\<close>: a second run, with the output
  directory missing and a compiler that answers for these two tools only, writes the
  same file; the tools are compiled as \<^verbatim>\<open>1\<close>, \<^verbatim>\<open>b\<close> and the file holds their
  definitions and lines in that order. The response whose tool names are no array
  indices is compiled in insertion order.
\<close>

theorem generateTypes_deterministic_witness:
  "written (fst (generateTypes ((env_of b_then_1)\<lparr>compile := sample_compile_for [''1'', ''b''],
                                                    existsSync_outputDir := False\<rparr>)))
     = written (fst (generateTypes (env_of b_then_1)))
   \<and> compiled (fst (generateTypes (env_of b_then_1))) = [''1'', ''b'']
   \<and> written (fst (generateTypes (env_of b_then_1))) =
       [(''/**\<newline>''
           @ '' * Auto-generated types from backend tool schemas\<newline>''
           @ '' * Do not edit manually - run \"npm run generate:types\" to update\<newline>''
           @ '' */\<newline>''
           @ ''\<newline>''
           @ ''export interface One {\<newline>''
           @ ''  [k: string]: unknown;\<newline>''
           @ ''}\<newline>''
           @ ''\<newline>''
           @ ''export interface B {\<newline>''
           @ ''  [k: string]: unknown;\<newline>''
           @ ''}\<newline>''
           @ ''\<newline>''
           @ ''\<newline>''
           @ ''// Tool output type mapping\<newline>''
           @ ''// Used in toolRenderers.tsx to ensure type safety\<newline>''
           @ ''export type ToolOutputTypes = {\<newline>''
           @ ''  1: One;\<newline>''
           @ ''  b: B;\<newline>''
           @ ''};\<newline>'')]
   \<and> compiled (fst (generateTypes (env_of weather_and_greeting))) = [''get_weather'', ''greet'']"
proof -
  let ?e = "env_of b_then_1"
  let ?e' = "(env_of b_then_1)\<lparr>compile := sample_compile_for [''1'', ''b''],
                               existsSync_outputDir := False\<rparr>"
  let ?w = "env_of weather_and_greeting"
  let ?data = "JObj [(''tools'', JObj b_then_1)]"
  have 1: "fetch_result ?e = Response True ''OK'' (Inr ?data)
      \<and> get_prop ?data ''tools'' = Inr (JObj b_then_1)
      \<and> Object_entries (if truthy (JObj b_then_1) then JObj b_then_1 else JObj [])
          = Inr (own_property_order b_then_1)
      \<and> fetch_result ?e' = fetch_result ?e
      \<and> (\<forall>p \<in> set (own_property_order b_then_1). truthy (read_prop (snd p) ''output'') \<longrightarrow>
            compile ?e' (read_prop (snd p) ''output'') (fst p)
              = compile ?e (read_prop (snd p) ''output'') (fst p))
      \<and> snd (generateTypes ?e) = 0 \<and> snd (generateTypes ?e') = 0"
    by (simp add: run_b_then_1 run_b_then_1_elsewhere order_b_then_1)
       (simp add: env_of_def sample_compile_for_def)
  have 2: "fetch_result ?e = Response True ''OK'' (Inr ?data)
         \<and> read_prop ?data ''tools'' = JObj b_then_1
         \<and> distinct (map fst b_then_1) \<and> snd (generateTypes ?e) = 0"
    by (simp add: run_b_then_1) (simp add: env_of_def b_then_1_def)
  have 3: "fetch_result ?w = Response True ''OK'' (Inr (JObj [(''tools'', JObj weather_and_greeting)]))
         \<and> read_prop (JObj [(''tools'', JObj weather_and_greeting)]) ''tools''
             = JObj weather_and_greeting
         \<and> distinct (map fst weather_and_greeting) \<and> snd (generateTypes ?w) = 0"
    by (simp add: run_weather_and_greeting) (simp add: env_of_def weather_and_greeting_def)
  have 4: "list_all (\<lambda>kv. \<not> is_array_index (fst kv)) weather_and_greeting"
    by (simp add: weather_and_greeting_def index_simps)
  have c: "compile ?e = sample_compile" by (simp add: env_of_def)
  note a = generateTypes_deterministic [of ?e, THEN conjunct1, rule_format, OF 1]
  note b = generateTypes_deterministic [of ?e, THEN conjunct2, rule_format, OF 2]
  note w = generateTypes_deterministic [of ?w, THEN conjunct2, rule_format, OF 3]
  from b have b1: "compiled (fst (generateTypes ?e)) = [''1'', ''b'']"
    by (simp add: order_b_then_1 tool_def object_schema_def)
  from b have b2: "written (fst (generateTypes ?e)) =
       [(''/**\<newline>''
           @ '' * Auto-generated types from backend tool schemas\<newline>''
           @ '' * Do not edit manually - run \"npm run generate:types\" to update\<newline>''
           @ '' */\<newline>''
           @ ''\<newline>''
           @ ''export interface One {\<newline>''
           @ ''  [k: string]: unknown;\<newline>''
           @ ''}\<newline>''
           @ ''\<newline>''
           @ ''export interface B {\<newline>''
           @ ''  [k: string]: unknown;\<newline>''
           @ ''}\<newline>''
           @ ''\<newline>''
           @ ''\<newline>''
           @ ''// Tool output type mapping\<newline>''
           @ ''// Used in toolRenderers.tsx to ensure type safety\<newline>''
           @ ''export type ToolOutputTypes = {\<newline>''
           @ ''  1: One;\<newline>''
           @ ''  b: B;\<newline>''
           @ ''};\<newline>'')]"
    unfolding c closed_b_then_1 by simp
  from w 4 have "compiled (fst (generateTypes ?w)) =
      map fst (filter (\<lambda>p. truthy (read_prop (snd p) ''output'')) weather_and_greeting)"
    by simp
  hence w1: "compiled (fst (generateTypes ?w)) = [''get_weather'', ''greet'']"
    by (simp add: weather_and_greeting_def tool_def object_schema_def string_schema_def)
  from a b1 b2 w1 show ?thesis by blast
qed

end
